theory Spec2Isabelle
  imports Complex_Main "HOL-Library.Sublist"
begin

section \<open>Hand-eye calibration control widget: the model\<close>

text \<open>
  A shallow embedding of \<^verbatim>\<open>handeye_control_widget.cpp\<close>. The member fields of
  \<^verbatim>\<open>ControlTabWidget\<close> that the slots read and write form a record; every slot is a
  function from the record (and from what its external collaborators answered) to the
  new record. C++ \<^verbatim>\<open>double\<close> is modelled by \<^typ>\<open>real\<close>. Undefined behaviour and an
  exception that leaves a slot are values of the type \<open>fault\<close>.
\<close>

datatype fault = UndefinedBehaviour | UncaughtException

subsection \<open>Solver names\<close>

text \<open>
  \<^verbatim>\<open>std::getline(tokenStream, token, delimiter)\<close> on the rest of the stream: at the end
  of the stream nothing is extracted and the call fails; otherwise the characters before
  the next delimiter are the token and the delimiter itself is discarded.
\<close>

fun getline :: "string \<Rightarrow> char \<Rightarrow> (string \<times> string) option" where
  "getline [] delimiter = None"
| "getline (c # cs) delimiter =
     Some (takeWhile (\<lambda>a. a \<noteq> delimiter) (c # cs),
           drop 1 (dropWhile (\<lambda>a. a \<noteq> delimiter) (c # cs)))"

text \<open>The loop \<^verbatim>\<open>while (std::getline(...)) tokens.push_back(token);\<close>\<close>

function tokenize :: "string \<Rightarrow> char \<Rightarrow> string list \<Rightarrow> string list" where
  "tokenize tokenStream delimiter tokens =
     (case getline tokenStream delimiter of
        None \<Rightarrow> tokens
      | Some (token, rest) \<Rightarrow> tokenize rest delimiter (tokens @ [token]))"
  by pat_completeness auto
termination
proof (relation "measure (\<lambda>(tokenStream, delimiter, tokens). length tokenStream)")
  show "wf (measure (\<lambda>(tokenStream, delimiter, tokens). length tokenStream))"
    by simp
next
  fix tokenStream :: string and delimiter :: char and tokens :: "string list"
    and x2 :: "string \<times> string" and token rest :: string
  assume g: "getline tokenStream delimiter = Some x2" and x2: "(token, rest) = x2"
  have "length (dropWhile (\<lambda>a. a \<noteq> delimiter) tokenStream) \<le> length tokenStream"
    by (rule length_dropWhile_le)
  with g x2 have "length rest < length tokenStream"
    by (cases tokenStream) auto
  then show "((rest, delimiter, tokens @ [token]), (tokenStream, delimiter, tokens))
      \<in> measure (\<lambda>(tokenStream, delimiter, tokens). length tokenStream)"
    by simp
qed

text \<open>
  \<^verbatim>\<open>parseSolverName\<close> returns \<^verbatim>\<open>tokens.back()\<close>; on an empty vector that call has
  undefined behaviour.
\<close>

definition parseSolverName :: "string \<Rightarrow> char \<Rightarrow> fault + string" where
  "parseSolverName solver_name delimiter =
     (let tokens = tokenize solver_name delimiter []
      in if tokens = [] then Inl UndefinedBehaviour else Inr (last tokens))"

text \<open>
  The specification's reading of the function, for comparison: the part of the name
  after the last occurrence of the delimiter, the whole name when it has none.
\<close>

definition spec_after_last_delimiter :: "string \<Rightarrow> char \<Rightarrow> string" where
  "spec_after_last_delimiter solver_name delimiter =
     rev (takeWhile (\<lambda>a. a \<noteq> delimiter) (rev solver_name))"

text \<open>A final delimiter opens no further token: the name is read without it.\<close>

definition without_final_delimiter :: "string \<Rightarrow> char \<Rightarrow> string" where
  "without_final_delimiter s d = (if s \<noteq> [] \<and> last s = d then butlast s else s)"

subsection \<open>Transforms\<close>

text \<open>
  A \<^verbatim>\<open>geometry_msgs::msg::TransformStamped\<close> is modelled by its \<^verbatim>\<open>transform\<close> member,
  the only part the widget reads: a translation and a quaternion with components
  x, y, z, w. An \<^verbatim>\<open>Eigen::Isometry3d\<close> is its 4x4 matrix, here the four rows.
\<close>

datatype vector3 = Vector3 real real real

datatype quaternion = Quaternion real real real real

datatype transform_msg = Transform (tf_translation: vector3) (tf_rotation: quaternion)

type_synonym row4 = "real \<times> real \<times> real \<times> real"

type_synonym isometry3d = "row4 \<times> row4 \<times> row4 \<times> row4"

definition Identity :: isometry3d where
  "Identity = ((1, 0, 0, 0), (0, 1, 0, 0), (0, 0, 1, 0), (0, 0, 0, 1))"

fun row_list :: "row4 \<Rightarrow> real list" where
  "row_list (a, b, c, d) = [a, b, c, d]"

fun matrix_rows :: "isometry3d \<Rightarrow> real list list" where
  "matrix_rows (r0, r1, r2, r3) = [row_list r0, row_list r1, row_list r2, row_list r3]"

text \<open>The coefficient \<^verbatim>\<open>m(y, x)\<close>, for \<open>y, x < 4\<close>.\<close>

definition coeff :: "isometry3d \<Rightarrow> nat \<Rightarrow> nat \<Rightarrow> real" where
  "coeff m y x = matrix_rows m ! y ! x"

text \<open>
  \<^verbatim>\<open>tf2::Quaternion::normalize\<close> divides the four components by the length. (For the zero
  quaternion C++ divides by zero; the quotient is \<open>0\<close> in HOL.)
\<close>

fun quaternion_length :: "quaternion \<Rightarrow> real" where
  "quaternion_length (Quaternion x y z w) = sqrt (x * x + y * y + z * z + w * w)"

fun normalize :: "quaternion \<Rightarrow> quaternion" where
  "normalize (Quaternion x y z w) =
     (let l = quaternion_length (Quaternion x y z w)
      in Quaternion (x / l) (y / l) (z / l) (w / l))"

definition renormalize :: "transform_msg \<Rightarrow> transform_msg" where
  "renormalize t = Transform (tf_translation t) (normalize (tf_rotation t))"

datatype SensorMountType = EYE_TO_HAND | EYE_IN_HAND

text \<open>
  What the widget calls but this file does not define: the conversions of tf2, the
  operations of Eigen, and the solver plugin (\<open>'s\<close> is the plugin's own state). They
  are parameters of the model.
  \<^item> \<open>rotation_angle m\<close> is \<^verbatim>\<open>Eigen::AngleAxisd(m.rotation()).angle()\<close>;
  \<^item> \<open>solver_solve\<close> returns the result flag, the error message it wrote and the
    plugin's new state.
\<close>

record 's collaborators =
  transformToEigen :: "transform_msg \<Rightarrow> isometry3d"
  eigenToTransform :: "isometry3d \<Rightarrow> transform_msg"
  iso_inverse :: "isometry3d \<Rightarrow> isometry3d"
  iso_times :: "isometry3d \<Rightarrow> isometry3d \<Rightarrow> isometry3d"
  rotation_angle :: "isometry3d \<Rightarrow> real"
  matrix_text :: "isometry3d \<Rightarrow> string"
  solver_solve :: "'s \<Rightarrow> isometry3d list \<Rightarrow> isometry3d list \<Rightarrow> SensorMountType
     \<Rightarrow> string \<Rightarrow> bool \<times> string \<times> 's"
  solver_getCameraRobotPose :: "'s \<Rightarrow> isometry3d"
  solver_getReprojectionError :: "'s \<Rightarrow> isometry3d list \<Rightarrow> isometry3d list
     \<Rightarrow> isometry3d \<Rightarrow> SensorMountType \<Rightarrow> real \<times> real"

subsection \<open>The progress bar\<close>

text \<open>
  \<^verbatim>\<open>ProgressBarWidget\<close> wraps a \<^verbatim>\<open>QProgressBar\<close>. Qt ignores a value outside the range
  (unless the range is 0..0). \<^verbatim>\<open>setMaximum(m)\<close> is \<^verbatim>\<open>setRange(qMin(minimum, m), m)\<close>: a
  maximum below the minimum lowers the minimum with it, and a new range that excludes
  the value resets the value to one below the minimum.
\<close>

record progress_bar =
  bar_minimum :: int
  bar_maximum :: int
  bar_value :: int

definition QProgressBar_setValue :: "progress_bar \<Rightarrow> int \<Rightarrow> progress_bar" where
  "QProgressBar_setValue b v =
     (if bar_value b = v \<or>
         ((v > bar_maximum b \<or> v < bar_minimum b) \<and> (bar_maximum b \<noteq> 0 \<or> bar_minimum b \<noteq> 0))
      then b else b\<lparr>bar_value := v\<rparr>)"

definition QProgressBar_setRange :: "progress_bar \<Rightarrow> int \<Rightarrow> int \<Rightarrow> progress_bar" where
  "QProgressBar_setRange b minimum maximum =
     (if minimum \<noteq> bar_minimum b \<or> maximum \<noteq> bar_maximum b
      then (let b1 = b\<lparr>bar_minimum := minimum, bar_maximum := max minimum maximum\<rparr>
            in if bar_value b1 < bar_minimum b1 - 1 \<or> bar_value b1 > bar_maximum b1
               then b1\<lparr>bar_value := bar_minimum b1 - 1\<rparr> else b1)
      else b)"

definition QProgressBar_setMaximum :: "progress_bar \<Rightarrow> int \<Rightarrow> progress_bar" where
  "QProgressBar_setMaximum b m = QProgressBar_setRange b (min (bar_minimum b) m) m"

definition setMax :: "progress_bar \<Rightarrow> int \<Rightarrow> progress_bar" where
  "setMax b v = QProgressBar_setMaximum b v"

definition setValue :: "progress_bar \<Rightarrow> int \<Rightarrow> progress_bar" where
  "setValue b v = QProgressBar_setValue b v"

definition getValue :: "progress_bar \<Rightarrow> int" where
  "getValue b = bar_value b"

subsection \<open>The widget's state\<close>

datatype PLANNING_RESULT =
    SUCCESS
  | FAILURE_NO_JOINT_STATE
  | FAILURE_INVALID_JOINT_STATE
  | FAILURE_NO_PSM
  | FAILURE_NO_MOVE_GROUP
  | FAILURE_WRONG_MOVE_GROUP
  | FAILURE_PLAN_FAILED

datatype status_level = StatusOk | StatusWarn | StatusError

text \<open>A message box the widget opened: its title and its text.\<close>

datatype message_box = Warning string string | Critical string string

text \<open>
  A row of the sample tree view: the sample's number, the base-to-end-effector
  transform and the camera-to-target transform it displays.
\<close>

datatype tree_row = SampleRow nat transform_msg transform_msg

text \<open>
  \<^item> \<open>frame_names\<close> is the \<^verbatim>\<open>std::map\<close> of frame names (a missing key reads as the
    empty string);
  \<^item> \<open>solver\<close> is \<open>None\<close> for a null \<^verbatim>\<open>solver_\<close>, \<open>calibration_solver\<close> is the
    current text of the solver combo box;
  \<^item> \<open>move_group\<close> is \<open>None\<close> for a null \<^verbatim>\<open>move_group_\<close>, else the active joints
    of the group; \<open>planning_scene_monitor\<close> tells whether the monitor exists, and
    \<open>current_plan\<close> whether a plan does;
  \<^item> \<open>reprojection_error_label\<close> is \<open>None\<close> for the text "N/A", else the two numbers
    shown; \<open>calibration_status\<close> is the display's "Calibration" status;
  \<^item> \<open>message_boxes\<close> lists the boxes opened so far and \<open>published_transforms\<close> what
    \<^verbatim>\<open>tf_tools_\<close> holds.
\<close>

record 's widget =
  effector_wrt_world :: "isometry3d list"
  object_wrt_sensor :: "isometry3d list"
  joint_names :: "string list"
  joint_states :: "real list list"
  camera_robot_pose :: isometry3d
  sensor_mount_type :: SensorMountType
  from_frame_tag :: string
  frame_names :: "(string \<times> string) list"
  solver :: "'s option"
  calibration_solver :: string
  move_group :: "string list option"
  planning_scene_monitor :: bool
  current_plan :: bool
  planning_res :: PLANNING_RESULT
  auto_progress :: progress_bar
  auto_plan_btn_enabled :: bool
  auto_execute_btn_enabled :: bool
  tree_view_model :: "tree_row list"
  reprojection_error_label :: "(real \<times> real) option"
  calibration_status :: "status_level \<times> string"
  message_boxes :: "message_box list"
  published_transforms :: "(isometry3d \<times> string \<times> string) list"

text \<open>
  The state the constructor leaves when no solver plugin and no planning group is
  found: the member initialisers of the source, and the planning scene monitor, which
  \<^verbatim>\<open>fillPlanningGroupNameComboBox\<close> always creates. The progress bar is taken to start
  as 0..0 at 0; the default arguments of its constructor are declared in the header.
\<close>

definition constructed :: "'s widget" where
  "constructed =
     \<lparr> effector_wrt_world = [], object_wrt_sensor = [], joint_names = [], joint_states = [],
       camera_robot_pose = Identity, sensor_mount_type = EYE_TO_HAND,
       from_frame_tag = ''base'', frame_names = [], solver = None, calibration_solver = [],
       move_group = None, planning_scene_monitor = True, current_plan = False,
       planning_res = SUCCESS,
       auto_progress = \<lparr>bar_minimum = 0, bar_maximum = 0, bar_value = 0\<rparr>,
       auto_plan_btn_enabled = True, auto_execute_btn_enabled = True,
       tree_view_model = [], reprojection_error_label = None,
       calibration_status = (StatusOk, ''Collect 5 samples to start calibration.''),
       message_boxes = [], published_transforms = [] \<rparr>"

definition frame_name :: "'s widget \<Rightarrow> string \<Rightarrow> string" where
  "frame_name w key = (case map_of (frame_names w) key of None \<Rightarrow> [] | Some name \<Rightarrow> name)"

definition show_message :: "message_box \<Rightarrow> 's widget \<Rightarrow> 's widget" where
  "show_message m w = w\<lparr>message_boxes := message_boxes w @ [m]\<rparr>"

subsection \<open>Taking a sample\<close>

definition MIN_ROTATION :: real where
  "MIN_ROTATION = pi / 36"

text \<open>
  The two loops of \<^verbatim>\<open>takeTransformSamples\<close> over the prior samples: is the rotation of
  \<^verbatim>\<open>candidate.inverse() * prior_tf\<close> below \<open>MIN_ROTATION\<close> for some prior sample?
\<close>

fun too_similar :: "'s collaborators \<Rightarrow> isometry3d \<Rightarrow> isometry3d list \<Rightarrow> bool" where
  "too_similar E candidate [] = False"
| "too_similar E candidate (prior_tf # priors) =
     (if rotation_angle E (iso_times E (iso_inverse E candidate) prior_tf) < MIN_ROTATION
      then True
      else too_similar E candidate priors)"

definition addPoseSampleToTreeView ::
  "transform_msg \<Rightarrow> transform_msg \<Rightarrow> nat \<Rightarrow> 's widget \<Rightarrow> 's widget" where
  "addPoseSampleToTreeView camera_to_object_tf base_to_eef_tf id' w =
     w\<lparr>tree_view_model := tree_view_model w @ [SampleRow id' base_to_eef_tf camera_to_object_tf]\<rparr>"

text \<open>
  The two lookups of the transform buffer are inputs: \<open>None\<close> when the lookup throws
  \<^verbatim>\<open>tf2::TransformException\<close> (the sensor-to-object lookup runs first).
\<close>

definition takeTransformSamples ::
  "'s collaborators \<Rightarrow> transform_msg option \<Rightarrow> transform_msg option \<Rightarrow> 's widget
     \<Rightarrow> bool \<times> 's widget" where
  "takeTransformSamples E camera_lookup eef_lookup w =
     (case camera_lookup of
        None \<Rightarrow> (False, w)
      | Some camera_to_object_tf \<Rightarrow>
     (case eef_lookup of
        None \<Rightarrow> (False, w)
      | Some base_to_eef_tf \<Rightarrow>
          (let base_to_eef_eig = transformToEigen E base_to_eef_tf;
               camera_to_object_eig = transformToEigen E camera_to_object_tf
           in if too_similar E base_to_eef_eig (effector_wrt_world w)
              then (False, show_message (Warning ''Error''
                ''End-effector orientation is too similar to a prior sample. Sample not recorded.'') w)
              else if too_similar E camera_to_object_eig (object_wrt_sensor w)
              then (False, show_message (Warning ''Error''
                ''Camera orientation is too similar to a prior sample. Sample not recorded.'') w)
              else
                (let camera_to_object_tf' = renormalize camera_to_object_tf;
                     base_to_eef_tf' = renormalize base_to_eef_tf;
                     w1 = w\<lparr>effector_wrt_world := effector_wrt_world w @ [base_to_eef_eig],
                            object_wrt_sensor := object_wrt_sensor w @ [camera_to_object_eig]\<rparr>
                 in (True, addPoseSampleToTreeView camera_to_object_tf' base_to_eef_tf'
                             (length (effector_wrt_world w1)) w1)))))"

subsection \<open>Solving\<close>

text \<open>
  \<open>publish_ok\<close> is what \<^verbatim>\<open>tf_tools_->publishTransform\<close> returns. The signal
  \<^verbatim>\<open>sensorPoseUpdate\<close> and the log lines are not part of the state.
\<close>

definition solveCameraRobotPose ::
  "'s collaborators \<Rightarrow> bool \<Rightarrow> 's widget \<Rightarrow> fault + (bool \<times> 's widget)" where
  "solveCameraRobotPose E publish_ok w =
     (case solver w of
        Some sv \<Rightarrow>
          if calibration_solver w \<noteq> [] then
            (case parseSolverName (calibration_solver w) (CHR ''/'') of
               Inl f \<Rightarrow> Inl f
             | Inr name \<Rightarrow>
                 (case solver_solve E sv (effector_wrt_world w) (object_wrt_sensor w)
                         (sensor_mount_type w) name of
                    (res, error_message, sv') \<Rightarrow>
                      if res then
                        (let pose = solver_getCameraRobotPose E sv';
                             reproj_err = solver_getReprojectionError E sv' (effector_wrt_world w)
                               (object_wrt_sensor w) pose (sensor_mount_type w);
                             w1 = w\<lparr>solver := Some sv', camera_robot_pose := pose,
                                    reprojection_error_label := Some reproj_err\<rparr>;
                             from_frame = frame_name w1 (from_frame_tag w1);
                             to_frame = frame_name w1 ''sensor''
                         in if from_frame \<noteq> [] \<and> to_frame \<noteq> [] then
                              Inr (publish_ok,
                                   w1\<lparr>published_transforms := [(pose, from_frame, to_frame)],
                                      calibration_status := (StatusOk, ''Calibration successful.'')\<rparr>)
                            else
                              Inr (False,
                                   (show_message (Warning ''Solver Failed''
                                      (''Found camera pose:<pre>'' @ [CHR 0x0A] @ matrix_text E pose
                                        @ [CHR 0x0A] @ ''</pre>but <b>'' @ from_frame_tag w1
                                        @ ''</b> or <b>sensor</b> frame is undefined.'')) w1)
                                   \<lparr>calibration_status :=
                                      (StatusWarn, ''Calibration successful but frames are undefined.'')\<rparr>))
                      else
                        Inr (False,
                             show_message (Warning ''Solver Failed'' (''Error: '' @ error_message))
                               (w\<lparr>solver := Some sv',
                                  calibration_status := (StatusError, ''Solver failed.'')\<rparr>))))
          else
            Inr (False,
                 show_message (Warning ''No Solver Available''
                    ''No available handeye calibration solver instance.'')
                   (w\<lparr>calibration_status := (StatusError, ''No solver available.'')\<rparr>))
      | None \<Rightarrow>
          Inr (False,
               show_message (Warning ''No Solver Available''
                  ''No available handeye calibration solver instance.'')
                 (w\<lparr>calibration_status := (StatusError, ''No solver available.'')\<rparr>)))"

definition frameNamesEmpty :: "'s widget \<Rightarrow> bool \<times> 's widget" where
  "frameNamesEmpty w =
     (if frame_name w ''sensor'' = [] \<or> frame_name w ''object'' = [] \<or>
         frame_name w ''base'' = [] \<or> frame_name w ''eef'' = []
      then (True, show_message (Warning ''Empty Frame Name''
              ''At least one of the four frame names is empty.'') w)
      else (False, w))"

definition checkJointStates :: "'s widget \<Rightarrow> bool" where
  "checkJointStates w =
     (if joint_names w = [] \<or> joint_states w = [] then False
      else list_all (\<lambda>state. length state = length (joint_names w)) (joint_states w))"

text \<open>
  The last block of \<^verbatim>\<open>takeSampleBtnClicked\<close>, which saves the joint values of the current
  robot state. The locked planning scene is an input: \<open>NoLockedScene\<close> when the lock
  yields no scene, else the active joint names and the joint positions of the selected
  group, \<open>None\<close> when the robot state has no such group (the source then dereferences
  a null \<^verbatim>\<open>jmg\<close>).
\<close>

datatype locked_scene = NoLockedScene | LockedScene "(string list \<times> real list) option"

definition saveJointValues :: "locked_scene \<Rightarrow> 's widget \<Rightarrow> fault + 's widget" where
  "saveJointValues ps w =
     (if planning_scene_monitor w then
        (case ps of
           NoLockedScene \<Rightarrow> Inr w
         | LockedScene None \<Rightarrow> Inl UndefinedBehaviour
         | LockedScene (Some (names, state_joint_values)) \<Rightarrow>
             (let w1 = (if length (joint_names w) \<noteq> length names \<or> joint_names w \<noteq> names
                        then w\<lparr>joint_names := [], joint_states := []\<rparr> else w)
              in if length names = length state_joint_values
                 then (let w2 = w1\<lparr>joint_names := names,
                                    joint_states := joint_states w1 @ [state_joint_values]\<rparr>
                       in Inr (w2\<lparr>auto_progress :=
                                 setMax (auto_progress w2) (int (length (joint_states w2)))\<rparr>))
                 else Inr w1))
      else Inr w)"

definition takeSampleBtnClicked ::
  "'s collaborators \<Rightarrow> transform_msg option \<Rightarrow> transform_msg option \<Rightarrow> bool \<Rightarrow> locked_scene
     \<Rightarrow> 's widget \<Rightarrow> fault + 's widget" where
  "takeSampleBtnClicked E camera_lookup eef_lookup publish_ok ps w =
     (case frameNamesEmpty w of
        (True, w1) \<Rightarrow> Inr w1
      | (False, w1) \<Rightarrow>
     (case takeTransformSamples E camera_lookup eef_lookup w1 of
        (False, w2) \<Rightarrow> Inr w2
      | (True, w2) \<Rightarrow>
          if length (effector_wrt_world w2) = length (object_wrt_sensor w2)
             \<and> length (effector_wrt_world w2) > 4
          then (case solveCameraRobotPose E publish_ok w2 of
                  Inl f \<Rightarrow> Inl f
                | Inr (False, w3) \<Rightarrow> Inr w3
                | Inr (True, w3) \<Rightarrow> saveJointValues ps w3)
          else saveJointValues ps w2))"

subsection \<open>Deleting and clearing\<close>

text \<open>
  \<^verbatim>\<open>QStandardItemModel::takeRow\<close> removes the row of that index, if there is one.
  \<^verbatim>\<open>pop_back\<close> on an empty vector has undefined behaviour.
\<close>

definition takeRow :: "nat \<Rightarrow> 'a list \<Rightarrow> 'a list" where
  "takeRow i rows = take i rows @ drop (Suc i) rows"

definition deleteLatestSampleBtnClicked :: "'s widget \<Rightarrow> fault + 's widget" where
  "deleteLatestSampleBtnClicked w =
     (if joint_states w = [] then
        Inr (show_message (Warning ''Empty Pose samples''
               ''Cannot delete last sample, list is already empty.'') w)
      else if effector_wrt_world w = [] then Inl UndefinedBehaviour
      else if object_wrt_sensor w = [] then Inl UndefinedBehaviour
      else
        (let w1 = w\<lparr>effector_wrt_world := butlast (effector_wrt_world w),
                    object_wrt_sensor := butlast (object_wrt_sensor w),
                    joint_states := butlast (joint_states w)\<rparr>;
             w2 = w1\<lparr>tree_view_model := takeRow (length (joint_states w1)) (tree_view_model w1)\<rparr>
         in Inr (w2\<lparr>auto_progress := setMax (auto_progress w2) (int (length (joint_states w2)))\<rparr>)))"

definition clearSamplesBtnClicked :: "'s widget \<Rightarrow> 's widget" where
  "clearSamplesBtnClicked w =
     (let w1 = w\<lparr>effector_wrt_world := [], object_wrt_sensor := [], tree_view_model := [],
                 joint_states := []\<rparr>;
          w2 = w1\<lparr>auto_progress := setMax (auto_progress w1) 0\<rparr>
      in w2\<lparr>auto_progress := setValue (auto_progress w2) 0\<rparr>)"

subsection \<open>Saving and loading samples\<close>

text \<open>
  The YAML document as the two slots use it: a sequence of mappings from keys to values;
  a value is a sequence of doubles or anything else (for which
  \<^verbatim>\<open>as<std::vector<double>>()\<close> throws, as it does for a key that is missing). The text of
  the file, which yaml-cpp writes and parses, is not modelled. \<open>ParseError\<close> is a file
  for which \<^verbatim>\<open>YAML::LoadFile\<close> throws.
\<close>

datatype yaml_value = YDoubles "real list" | YOther

type_synonym yaml_map = "(string \<times> yaml_value) list"

datatype yaml_file = ParseError | Document "yaml_map list"

text \<open>The inner loops of \<^verbatim>\<open>saveSamplesBtnClicked\<close>: the 16 coefficients, row by row.\<close>

definition emit_matrix :: "isometry3d \<Rightarrow> yaml_value" where
  "emit_matrix m = YDoubles (concat (map (\<lambda>y. map (\<lambda>x. coeff m y x) [0..<4]) [0..<4]))"

definition emit_samples :: "isometry3d list \<Rightarrow> isometry3d list \<Rightarrow> yaml_map list" where
  "emit_samples effector object =
     map (\<lambda>i. [(''effector_wrt_world'', emit_matrix (effector ! i)),
                (''object_wrt_sensor'', emit_matrix (object ! i))])
         [0..<length effector]"

text \<open>
  \<open>file_name\<close> is what the file dialog returned (empty when cancelled) and
  \<open>open_error\<close> the error string when the file cannot be opened for writing. The
  result is the file written, if any.
  The index \<open>i\<close> of the outer loop is in range for both vectors, since the slot returns
  at once when their sizes differ.
\<close>

definition saveSamplesBtnClicked ::
  "string \<Rightarrow> string option \<Rightarrow> 's widget \<Rightarrow> (string \<times> yaml_map list) option \<times> 's widget" where
  "saveSamplesBtnClicked file_name open_error w =
     (if length (effector_wrt_world w) \<noteq> length (object_wrt_sensor w) then (None, w)
      else if file_name = [] then (None, w)
      else
        (let file_name' = (if suffix ''.yaml'' file_name then file_name else file_name @ ''.yaml'')
         in (case open_error of
               Some errorString \<Rightarrow>
                 (None, show_message (Warning ''Unable to open file'' errorString) w)
             | None \<Rightarrow>
                 (Some (file_name', emit_samples (effector_wrt_world w) (object_wrt_sensor w)),
                  w))))"

text \<open>
  \<^verbatim>\<open>node[key].as<std::vector<double>>()\<close>: the doubles, or a \<^verbatim>\<open>YAML::Exception\<close> with its
  \<^verbatim>\<open>what()\<close> text.
\<close>

definition as_vector_double :: "yaml_map \<Rightarrow> string \<Rightarrow> string + real list" where
  "as_vector_double node key =
     (case map_of node key of
        Some (YDoubles ds) \<Rightarrow> Inr ds
      | _ \<Rightarrow> Inl ''bad conversion'')"

text \<open>
  \<^verbatim>\<open>Eigen::Map<const Matrix4d_rm>(v.data())\<close> read into a transform: coefficient
  \<open>(y, x)\<close> is \<open>v[4 * y + x]\<close>. It reads 16 doubles whatever the size of the vector; on
  a shorter one that is a read past the end.
\<close>

definition map_row_major :: "real list \<Rightarrow> fault + isometry3d" where
  "map_row_major v =
     (if length v < 16 then Inl UndefinedBehaviour
      else Inr ((v ! 0, v ! 1, v ! 2, v ! 3), (v ! 4, v ! 5, v ! 6, v ! 7),
                (v ! 8, v ! 9, v ! 10, v ! 11), (v ! 12, v ! 13, v ! 14, v ! 15)))"

text \<open>
  The loop of \<^verbatim>\<open>loadSamplesBtnClicked\<close> over the records. Its result is the state when
  the loop ends, together with the \<^verbatim>\<open>what()\<close> of the \<^verbatim>\<open>YAML::Exception\<close> that ended it,
  if one did: the vectors are the widget's own, so what was stored before the exception
  stays stored.
\<close>

fun load_records :: "'s collaborators \<Rightarrow> yaml_map list \<Rightarrow> 's widget
    \<Rightarrow> fault + (string option \<times> 's widget)" where
  "load_records E [] w = Inr (None, w)"
| "load_records E (node # nodes) w =
     (case as_vector_double node ''effector_wrt_world'' of
        Inl what \<Rightarrow> Inr (Some what, w)
      | Inr v1 \<Rightarrow>
     (case map_row_major v1 of
        Inl f \<Rightarrow> Inl f
      | Inr m1 \<Rightarrow>
          (let w1 = w\<lparr>effector_wrt_world := effector_wrt_world w @ [m1]\<rparr>
           in (case as_vector_double node ''object_wrt_sensor'' of
                 Inl what \<Rightarrow> Inr (Some what, w1)
               | Inr v2 \<Rightarrow>
              (case map_row_major v2 of
                 Inl f \<Rightarrow> Inl f
               | Inr m2 \<Rightarrow>
                   (let w2 = w1\<lparr>object_wrt_sensor := object_wrt_sensor w1 @ [m2]\<rparr>
                    in load_records E nodes
                         (addPoseSampleToTreeView
                            (eigenToTransform E (last (object_wrt_sensor w2)))
                            (eigenToTransform E (last (effector_wrt_world w2)))
                            (length (effector_wrt_world w2)) w2)))))))"

text \<open>
  \<open>file_name\<close> is what the file dialog returned and \<open>file\<close> what is in that file.
  \<^verbatim>\<open>YAML::LoadFile\<close> is called outside the \<^verbatim>\<open>try\<close> block, after the two vectors
  were cleared.
\<close>

definition loadSamplesBtnClicked ::
  "'s collaborators \<Rightarrow> string \<Rightarrow> yaml_file \<Rightarrow> 's widget \<Rightarrow> fault + 's widget" where
  "loadSamplesBtnClicked E file_name file w =
     (if file_name = [] then Inr w
      else
        (let w1 = w\<lparr>effector_wrt_world := [], object_wrt_sensor := []\<rparr>
         in (case file of
               ParseError \<Rightarrow> Inl UncaughtException
             | Document yaml_states \<Rightarrow>
                 (case load_records E yaml_states w1 of
                    Inl f \<Rightarrow> Inl f
                  | Inr (Some what, w2) \<Rightarrow>
                      Inr (show_message (Critical ''YAML Exception''
                             (''YAML exception: '' @ what @ [CHR 0x0A]
                               @ ''Check that the sample file has the correct format.'')) w2)
                  | Inr (None, w2) \<Rightarrow>
                      (let w3 = w2\<lparr>auto_progress :=
                                    setMax (auto_progress w2) (int (length yaml_states))\<rparr>
                       in Inr (w3\<lparr>auto_progress :=
                                    setValue (auto_progress w3) (int (length yaml_states))\<rparr>))))))"

subsection \<open>Calibrating with recorded joint states\<close>

text \<open>
  \<open>plan_ok\<close> tells whether \<^verbatim>\<open>move_group_->plan\<close> answers \<^verbatim>\<open>SUCCESS\<close>. The comparisons
  of the \<^verbatim>\<open>int\<close> progress value and maximum with \<^verbatim>\<open>joint_states_.size()\<close> are unsigned in
  C++: a negative value is not below the size and a negative maximum differs from it.
\<close>

definition computePlan :: "bool \<Rightarrow> 's widget \<Rightarrow> 's widget" where
  "computePlan plan_ok w =
     (let w0 = w\<lparr>planning_res := SUCCESS\<rparr>;
          max' = bar_maximum (auto_progress w0)
      in if max' \<noteq> int (length (joint_states w0)) \<or> getValue (auto_progress w0) = max'
         then w0\<lparr>planning_res := FAILURE_NO_JOINT_STATE\<rparr>
         else if \<not> checkJointStates w0
         then w0\<lparr>planning_res := FAILURE_INVALID_JOINT_STATE\<rparr>
         else if \<not> planning_scene_monitor w0
         then w0\<lparr>planning_res := FAILURE_NO_PSM\<rparr>
         else (case move_group w0 of
                 None \<Rightarrow> w0\<lparr>planning_res := FAILURE_NO_MOVE_GROUP\<rparr>
               | Some active_joints \<Rightarrow>
                   if active_joints \<noteq> joint_names w0
                   then w0\<lparr>planning_res := FAILURE_WRONG_MOVE_GROUP\<rparr>
                   else if 0 \<le> getValue (auto_progress w0)
                           \<and> getValue (auto_progress w0) < int (length (joint_states w0))
                   then w0\<lparr>current_plan := True,
                           planning_res := (if plan_ok then SUCCESS else FAILURE_PLAN_FAILED)\<rparr>
                   else w0))"

definition autoPlanBtnClicked :: "bool \<Rightarrow> 's widget \<Rightarrow> 's widget" where
  "autoPlanBtnClicked plan_ok w = computePlan plan_ok (w\<lparr>auto_plan_btn_enabled := False\<rparr>)"

definition planFinished :: "'s widget \<Rightarrow> 's widget" where
  "planFinished w =
     (let w1 = w\<lparr>auto_plan_btn_enabled := True\<rparr>
      in case planning_res w1 of
           FAILURE_NO_JOINT_STATE \<Rightarrow> show_message (Warning ''Error''
             ''Could not compute plan. No more prerecorded joint states to execute.'') w1
         | FAILURE_INVALID_JOINT_STATE \<Rightarrow> show_message (Warning ''Error''
             ''Could not compute plan. Invalid joint states (names wrong or missing).'') w1
         | FAILURE_NO_PSM \<Rightarrow> show_message (Warning ''Error''
             ''Could not compute plan. No planning scene monitor.'') w1
         | FAILURE_NO_MOVE_GROUP \<Rightarrow> show_message (Warning ''Error''
             ''Could not compute plan. Missing move_group.'') w1
         | FAILURE_WRONG_MOVE_GROUP \<Rightarrow> show_message (Warning ''Error''
             ''Could not compute plan. Joint names for recorded state do not match names from current planning group.'') w1
         | FAILURE_PLAN_FAILED \<Rightarrow> show_message (Warning ''Error''
             ''Could not compute plan. Planning failed.'') w1
         | SUCCESS \<Rightarrow> w1)"

text \<open>\<open>execute_ok\<close> tells whether \<^verbatim>\<open>move_group_->execute\<close> answers \<^verbatim>\<open>SUCCESS\<close>.\<close>

definition computeExecution :: "bool \<Rightarrow> 's widget \<Rightarrow> 's widget" where
  "computeExecution execute_ok w =
     (if move_group w \<noteq> None \<and> current_plan w
      then w\<lparr>planning_res := (if execute_ok then SUCCESS else FAILURE_PLAN_FAILED)\<rparr>
      else w)"

definition autoExecuteBtnClicked :: "bool \<Rightarrow> 's widget \<Rightarrow> 's widget" where
  "autoExecuteBtnClicked execute_ok w =
     computeExecution execute_ok (w\<lparr>auto_execute_btn_enabled := False\<rparr>)"

definition executeFinished ::
  "'s collaborators \<Rightarrow> transform_msg option \<Rightarrow> transform_msg option \<Rightarrow> bool \<Rightarrow> 's widget
     \<Rightarrow> fault + 's widget" where
  "executeFinished E camera_lookup eef_lookup publish_ok w =
     (let w0 = w\<lparr>auto_execute_btn_enabled := True\<rparr>
      in if planning_res w0 = SUCCESS then
           (let w1 = w0\<lparr>auto_progress :=
                        setValue (auto_progress w0) (getValue (auto_progress w0) + 1)\<rparr>;
                w2 = (case frameNamesEmpty w1 of
                        (True, w') \<Rightarrow> w'
                      | (False, w') \<Rightarrow> snd (takeTransformSamples E camera_lookup eef_lookup w'))
            in if length (effector_wrt_world w2) = length (object_wrt_sensor w2)
                  \<and> length (effector_wrt_world w2) > 4
               then (case solveCameraRobotPose E publish_ok w2 of
                       Inl f \<Rightarrow> Inl f
                     | Inr (res, w3) \<Rightarrow> Inr w3)
               else Inr w2)
         else Inr w0)"

definition autoSkipBtnClicked :: "'s widget \<Rightarrow> 's widget" where
  "autoSkipBtnClicked w =
     w\<lparr>auto_progress := setValue (auto_progress w) (getValue (auto_progress w) + 1)\<rparr>"

text \<open>
  One round of the automatic calibration: the Plan button with its completion handler,
  then the Execute button with its own. The inputs of the round are what the planner,
  the executor, the two transform lookups and the transform publisher answer.
\<close>

definition plan_execute_cycle ::
  "'s collaborators \<Rightarrow> bool \<Rightarrow> bool \<Rightarrow> transform_msg option \<Rightarrow> transform_msg option \<Rightarrow> bool
     \<Rightarrow> 's widget \<Rightarrow> fault + 's widget" where
  "plan_execute_cycle E plan_ok execute_ok camera_lookup eef_lookup publish_ok w =
     executeFinished E camera_lookup eef_lookup publish_ok
       (autoExecuteBtnClicked execute_ok (planFinished (autoPlanBtnClicked plan_ok w)))"

subsection \<open>An instance of the collaborators\<close>

text \<open>
  To run the model on concrete inputs the parameters need values. The instance below
  takes transforms without translation for the relative rotation: the inverse is the
  transposed matrix, the product the matrix product, and the angle of a rotation matrix
  with trace \<open>t\<close> is \<open>arccos ((t - 1) / 2)\<close>. A quaternion becomes a matrix by the
  usual formula. The solver is a stand-in: it knows one algorithm, answers the latest
  end-effector sample, and refuses every other name.
\<close>

fun transpose4 :: "isometry3d \<Rightarrow> isometry3d" where
  "transpose4 ((a0, a1, a2, a3), (b0, b1, b2, b3), (c0, c1, c2, c3), (d0, d1, d2, d3)) =
     ((a0, b0, c0, d0), (a1, b1, c1, d1), (a2, b2, c2, d2), (a3, b3, c3, d3))"

fun dot4 :: "row4 \<Rightarrow> row4 \<Rightarrow> real" where
  "dot4 (a0, a1, a2, a3) (b0, b1, b2, b3) = a0 * b0 + a1 * b1 + a2 * b2 + a3 * b3"

fun times_columns :: "isometry3d \<Rightarrow> isometry3d \<Rightarrow> isometry3d" where
  "times_columns (r0, r1, r2, r3) (c0, c1, c2, c3) =
     ((dot4 r0 c0, dot4 r0 c1, dot4 r0 c2, dot4 r0 c3),
      (dot4 r1 c0, dot4 r1 c1, dot4 r1 c2, dot4 r1 c3),
      (dot4 r2 c0, dot4 r2 c1, dot4 r2 c2, dot4 r2 c3),
      (dot4 r3 c0, dot4 r3 c1, dot4 r3 c2, dot4 r3 c3))"

definition times4 :: "isometry3d \<Rightarrow> isometry3d \<Rightarrow> isometry3d" where
  "times4 m n = times_columns m (transpose4 n)"

fun trace3 :: "isometry3d \<Rightarrow> real" where
  "trace3 ((a0, a1, a2, a3), (b0, b1, b2, b3), (c0, c1, c2, c3), r3) = a0 + b1 + c2"

definition trace_angle :: "isometry3d \<Rightarrow> real" where
  "trace_angle m = arccos ((trace3 m - 1) / 2)"

fun quaternion_matrix :: "transform_msg \<Rightarrow> isometry3d" where
  "quaternion_matrix (Transform (Vector3 tx ty tz) (Quaternion x y z w)) =
     ((1 - 2 * (y * y + z * z), 2 * (x * y - z * w), 2 * (x * z + y * w), tx),
      (2 * (x * y + z * w), 1 - 2 * (x * x + z * z), 2 * (y * z - x * w), ty),
      (2 * (x * z - y * w), 2 * (y * z + x * w), 1 - 2 * (x * x + y * y), tz),
      (0, 0, 0, 1))"

definition translation_only :: "isometry3d \<Rightarrow> transform_msg" where
  "translation_only m =
     Transform (Vector3 (coeff m 0 3) (coeff m 1 3) (coeff m 2 3)) (Quaternion 0 0 0 1)"

definition latest_sample_solver ::
  "isometry3d \<Rightarrow> isometry3d list \<Rightarrow> isometry3d list \<Rightarrow> SensorMountType \<Rightarrow> string
     \<Rightarrow> bool \<times> string \<times> isometry3d" where
  "latest_sample_solver sv effector object mount name =
     (if name = ''Daniilidis1999'' \<and> effector \<noteq> []
      then (True, [], last effector)
      else (False, ''Unknown handeye solver name: '' @ name, sv))"

definition test_collaborators :: "isometry3d collaborators" where
  "test_collaborators =
     \<lparr> transformToEigen = quaternion_matrix,
       eigenToTransform = translation_only,
       iso_inverse = transpose4,
       iso_times = times4,
       rotation_angle = trace_angle,
       matrix_text = (\<lambda>m. ''matrix''),
       solver_solve = latest_sample_solver,
       solver_getCameraRobotPose = (\<lambda>sv. sv),
       solver_getReprojectionError = (\<lambda>sv effector object pose mount. (0, 0)) \<rparr>"

text \<open>Two transform messages: no rotation, and a half turn about the x axis.\<close>

definition no_turn :: transform_msg where
  "no_turn = Transform (Vector3 0 0 0) (Quaternion 0 0 0 1)"

definition half_turn_x :: transform_msg where
  "half_turn_x = Transform (Vector3 0 0 0) (Quaternion 1 0 0 0)"

subsection \<open>Concrete states\<close>

text \<open>
  A widget with a solver instance, a solver selected in the combo box and the four frame
  names set; and a widget holding one sample pair.
\<close>

definition with_solver :: "string \<Rightarrow> isometry3d widget \<Rightarrow> isometry3d widget" where
  "with_solver name w =
     w\<lparr>solver := Some Identity, calibration_solver := name,
       frame_names := [(''sensor'', ''camera''), (''object'', ''target''),
                       (''base'', ''base_link''), (''eef'', ''tool0'')]\<rparr>"

definition one_sample :: "isometry3d widget" where
  "one_sample = constructed\<lparr>effector_wrt_world := [Identity], object_wrt_sensor := [Identity]\<rparr>"

text \<open>
  A transform message whose quaternion is a little longer than a unit quaternion (the
  transform buffer accepts a deviation of this size), and the file that
  \<^verbatim>\<open>saveSamplesBtnClicked\<close> writes for one pair of identity transforms.
\<close>

definition off_norm :: transform_msg where
  "off_norm = Transform (Vector3 0 0 0) (Quaternion (1001 / 1000) 0 0 0)"

definition one_sample_file :: yaml_file where
  "one_sample_file = Document (emit_samples [Identity] [Identity])"

subsection \<open>The specification's relative rotation\<close>

text \<open>
  The specification measures a candidate against a prior sample by the rotation angle
  of \<open>inverse(prior) * candidate\<close>.
\<close>

definition relative_angle :: "'s collaborators \<Rightarrow> isometry3d \<Rightarrow> isometry3d \<Rightarrow> real" where
  "relative_angle E prior candidate =
     rotation_angle E (iso_times E (iso_inverse E prior) candidate)"

subsection \<open>Notions of the specification about the sample file\<close>

text \<open>
  The 16 coefficients of a transform in row-major order, the record of one sample pair
  with its two keys, the box that reports a \<^verbatim>\<open>YAML::Exception\<close> with a given
  \<^verbatim>\<open>what()\<close>, and the alignment of the two sequences.
\<close>

definition row_major :: "isometry3d \<Rightarrow> real list" where
  "row_major m =
     [coeff m 0 0, coeff m 0 1, coeff m 0 2, coeff m 0 3,
      coeff m 1 0, coeff m 1 1, coeff m 1 2, coeff m 1 3,
      coeff m 2 0, coeff m 2 1, coeff m 2 2, coeff m 2 3,
      coeff m 3 0, coeff m 3 1, coeff m 3 2, coeff m 3 3]"

definition sample_record :: "isometry3d \<Rightarrow> isometry3d \<Rightarrow> yaml_map" where
  "sample_record effector object =
     [(''effector_wrt_world'', YDoubles (row_major effector)),
      (''object_wrt_sensor'', YDoubles (row_major object))]"

definition yaml_exception_box :: "string \<Rightarrow> message_box" where
  "yaml_exception_box what =
     Critical ''YAML Exception''
       (''YAML exception: '' @ what @ [CHR 0x0A]
          @ ''Check that the sample file has the correct format.'')"

definition aligned :: "'s widget \<Rightarrow> bool" where
  "aligned w = (length (effector_wrt_world w) = length (object_wrt_sensor w))"

text \<open>The matrix of a half turn about the x axis.\<close>

definition half_turn_matrix :: isometry3d where
  "half_turn_matrix = quaternion_matrix half_turn_x"

subsection \<open>The sequencer scenario and further concrete states\<close>

text \<open>
  \<open>recorded_targets w n\<close>: the widget holds \<open>n\<close> valid recorded joint states, the
  progress bar ranges over \<open>0..n\<close>, and the planning scene monitor and a move group
  with the recorded joint names are there.
\<close>

definition recorded_targets :: "'s widget \<Rightarrow> nat \<Rightarrow> bool" where
  "recorded_targets w n =
     (bar_minimum (auto_progress w) = 0 \<and> bar_maximum (auto_progress w) = int n \<and>
      length (joint_states w) = n \<and> checkJointStates w \<and> planning_scene_monitor w \<and>
      move_group w = Some (joint_names w))"

definition selected_solver :: string where
  "selected_solver = ''moveit_calibration/Daniilidis1999''"

definition three_targets :: "isometry3d widget" where
  "three_targets =
     (with_solver selected_solver constructed)
       \<lparr>joint_names := [''joint1''], joint_states := [[0], [1], [2]],
        move_group := Some [''joint1''], planning_scene_monitor := True,
        auto_progress := \<lparr>bar_minimum = 0, bar_maximum = 3, bar_value = 0\<rparr>\<rparr>"

definition recorded_one :: "isometry3d widget" where
  "recorded_one =
     (with_solver selected_solver one_sample)
       \<lparr>joint_names := [''joint1''], joint_states := [[0]],
        auto_progress := \<lparr>bar_minimum = 0, bar_maximum = 1, bar_value = 0\<rparr>\<rparr>"

definition four_samples :: "isometry3d widget" where
  "four_samples =
     (with_solver selected_solver constructed)
       \<lparr>effector_wrt_world := [Identity, Identity, Identity, Identity],
        object_wrt_sensor := [Identity, Identity, Identity, Identity]\<rparr>"

definition six_samples :: "isometry3d widget" where
  "six_samples =
     (with_solver selected_solver constructed)
       \<lparr>effector_wrt_world := [Identity, Identity, Identity, Identity, Identity, half_turn_matrix],
        object_wrt_sensor := [Identity, Identity, Identity, Identity, Identity, half_turn_matrix],
        joint_names := [''joint1''], joint_states := [[0], [1], [2], [3], [4], [5]],
        camera_robot_pose := half_turn_matrix,
        auto_progress := \<lparr>bar_minimum = 0, bar_maximum = 6, bar_value = 0\<rparr>\<rparr>"

text \<open>The state of \<open>four_samples\<close> after a half turn was accepted as fifth sample.\<close>

definition five_samples :: "isometry3d widget" where
  "five_samples =
     addPoseSampleToTreeView (renormalize half_turn_x) (renormalize half_turn_x) 5
       (four_samples
          \<lparr>effector_wrt_world := [Identity, Identity, Identity, Identity, half_turn_matrix],
           object_wrt_sensor := [Identity, Identity, Identity, Identity, half_turn_matrix]\<rparr>)"

section \<open>Properties\<close>

subsection \<open>Solver names\<close>

declare tokenize.simps [simp del]

lemma takeWhile_no_delimiter: "d \<notin> set t \<Longrightarrow> takeWhile (\<lambda>a. a \<noteq> d) t = t"
  by (induction t) auto

lemma getline_Some_cases:
  assumes "getline s d = Some (token, rest)"
  shows "d \<notin> set token \<and> (s = token \<and> rest = [] \<or> s = token @ d # rest)"
proof -
  from assms have ne: "s \<noteq> []" by (cases s) auto
  from assms ne have t: "token = takeWhile (\<lambda>a. a \<noteq> d) s"
    and r: "rest = drop 1 (dropWhile (\<lambda>a. a \<noteq> d) s)"
    by (cases s; auto)+
  have notin: "d \<notin> set token" unfolding t by (auto dest: set_takeWhileD)
  show ?thesis
  proof (cases "dropWhile (\<lambda>a. a \<noteq> d) s")
    case Nil
    then have "s = token" unfolding t by (metis append_Nil2 takeWhile_dropWhile_id)
    moreover have "rest = []" unfolding r Nil by simp
    ultimately show ?thesis using notin by blast
  next
    case (Cons a as)
    then have "a = d" using hd_dropWhile[of "\<lambda>a. a \<noteq> d" s] by auto
    with Cons have "s = token @ d # rest" unfolding t r
      by (metis drop0 drop_Suc_Cons One_nat_def takeWhile_dropWhile_id)
    with notin show ?thesis by simp
  qed
qed

lemma after_last_no_delimiter:
  assumes "d \<notin> set t"
  shows "spec_after_last_delimiter t d = t"
  using assms by (simp add: spec_after_last_delimiter_def takeWhile_no_delimiter)

lemma after_last_append:
  "spec_after_last_delimiter (t @ d # r) d = spec_after_last_delimiter r d"
proof (cases "d \<in> set r")
  case True
  then show ?thesis
    by (auto simp: spec_after_last_delimiter_def takeWhile_append)
next
  case False
  then show ?thesis
    by (simp add: spec_after_last_delimiter_def takeWhile_append takeWhile_no_delimiter)
qed

lemma tokenize_last:
  "s \<noteq> [] \<Longrightarrow> tokenize s d acc \<noteq> [] \<and>
     last (tokenize s d acc) = spec_after_last_delimiter (without_final_delimiter s d) d"
proof (induction s d acc rule: tokenize.induct)
  case (1 s d acc)
  from \<open>s \<noteq> []\<close> obtain token rest where g: "getline s d = Some (token, rest)"
    by (cases s) auto
  from getline_Some_cases[OF g] have notin: "d \<notin> set token"
    and shape: "s = token \<and> rest = [] \<or> s = token @ d # rest" by auto
  have unf: "tokenize s d acc = tokenize rest d (acc @ [token])"
    using g by (subst tokenize.simps) simp
  show ?case
  proof (cases "rest = []")
    case True
    then have tk: "tokenize s d acc = acc @ [token]"
      using unf by (simp add: tokenize.simps)
    from shape True have "s = token \<or> s = token @ [d]" by auto
    then have "spec_after_last_delimiter (without_final_delimiter s d) d = token"
    proof
      assume "s = token"
      with notin \<open>s \<noteq> []\<close> have "without_final_delimiter s d = token"
        by (auto simp: without_final_delimiter_def)
      with notin show ?thesis by (simp add: after_last_no_delimiter)
    next
      assume "s = token @ [d]"
      then have "without_final_delimiter s d = token"
        by (simp add: without_final_delimiter_def)
      with notin show ?thesis by (simp add: after_last_no_delimiter)
    qed
    with tk show ?thesis by simp
  next
    case False
    with shape have s: "s = token @ d # rest" by auto
    from "1.IH"[OF g refl False]
    have ih: "tokenize rest d (acc @ [token]) \<noteq> [] \<and>
      last (tokenize rest d (acc @ [token]))
        = spec_after_last_delimiter (without_final_delimiter rest d) d" .
    have "without_final_delimiter s d = token @ d # without_final_delimiter rest d"
      using False s by (auto simp: without_final_delimiter_def butlast_append)
    then have "spec_after_last_delimiter (without_final_delimiter s d) d
        = spec_after_last_delimiter (without_final_delimiter rest d) d"
      by (simp add: after_last_append)
    with ih unf show ?thesis by simp
  qed
qed

lemma parseSolverName_nonempty:
  assumes "solver_name \<noteq> []"
  shows "parseSolverName solver_name delimiter =
     Inr (spec_after_last_delimiter (without_final_delimiter solver_name delimiter) delimiter)"
  using tokenize_last[OF assms, of delimiter "[]"]
  by (simp add: parseSolverName_def Let_def)

lemma parseSolverName_empty: "parseSolverName [] delimiter = Inl UndefinedBehaviour"
  by (simp add: parseSolverName_def tokenize.simps)

lemma solve_invokes_solver:
  assumes "solver w = Some sv" and "calibration_solver w \<noteq> []"
  shows "\<exists>name res error_message sv' r.
          parseSolverName (calibration_solver w) (CHR ''/'') = Inr name \<and>
          solver_solve E sv (effector_wrt_world w) (object_wrt_sensor w)
            (sensor_mount_type w) name = (res, error_message, sv') \<and>
          solveCameraRobotPose E publish_ok w = Inr r \<and> solver (snd r) = Some sv'"
proof -
  obtain name where n: "parseSolverName (calibration_solver w) (CHR ''/'') = Inr name"
    using parseSolverName_nonempty[OF assms(2)] by blast
  obtain res error_message sv' where
    sol: "solver_solve E sv (effector_wrt_world w) (object_wrt_sensor w)
            (sensor_mount_type w) name = (res, error_message, sv')"
    by (cases "solver_solve E sv (effector_wrt_world w) (object_wrt_sensor w)
            (sensor_mount_type w) name") auto
  have "\<exists>r. solveCameraRobotPose E publish_ok w = Inr r \<and> solver (snd r) = Some sv'"
    using assms n sol
    by (auto simp: solveCameraRobotPose_def Let_def show_message_def)
  with n sol show ?thesis by blast
qed

text \<open>
  Claim C10, as amended. \<^verbatim>\<open>parseSolverName(name, delimiter)\<close> returns the part after the
  last delimiter of the name read without a final delimiter: the whole name when it has
  no delimiter, and for a name that ends with the delimiter the token before that final
  delimiter, not the empty string. For the empty name the token list is empty and
  \<^verbatim>\<open>back()\<close> has undefined behaviour. The solve path calls the function on the text of
  the solver combo box, which it has checked to be non-empty, with \<open>/\<close>, and hands the
  result to the solver as it is: the solver is invoked with that name, and the widget
  keeps the state the solver returned.
\<close>

theorem C10_parseSolverName_amended:
  "parseSolverName solver_name delimiter =
     (if solver_name = [] then Inl UndefinedBehaviour
      else Inr (spec_after_last_delimiter
                  (without_final_delimiter solver_name delimiter) delimiter))
   \<and> (solver w = Some sv \<and> calibration_solver w \<noteq> [] \<longrightarrow>
       (\<exists>name res error_message sv' r.
          parseSolverName (calibration_solver w) (CHR ''/'') = Inr name \<and>
          solver_solve E sv (effector_wrt_world w) (object_wrt_sensor w)
            (sensor_mount_type w) name = (res, error_message, sv') \<and>
          solveCameraRobotPose E publish_ok w = Inr r \<and> solver (snd r) = Some sv'))"
  using solve_invokes_solver[of w sv E publish_ok]
  by (simp add: parseSolverName_empty parseSolverName_nonempty)

text \<open>
  The claim as stated fails for a name that ends with the delimiter: the part after the
  last delimiter of \<open>plugin/\<close> is empty, and the function returns \<open>plugin\<close>.
\<close>

theorem C10_trailing_delimiter_counterexample:
  "parseSolverName ''plugin/'' (CHR ''/'') = Inr ''plugin'' \<and>
   spec_after_last_delimiter ''plugin/'' (CHR ''/'') = []"
  by (simp add: parseSolverName_def tokenize.simps spec_after_last_delimiter_def)

theorem C10_parseSolverName_amended_witness:
  "parseSolverName ''moveit_calibration/Daniilidis1999'' (CHR ''/'') = Inr ''Daniilidis1999''
   \<and> (\<exists>name res error_message sv' r.
          parseSolverName (calibration_solver
             (with_solver ''moveit_calibration/Daniilidis1999'' one_sample)) (CHR ''/'') = Inr name \<and>
          solver_solve test_collaborators Identity
            (effector_wrt_world (with_solver ''moveit_calibration/Daniilidis1999'' one_sample))
            (object_wrt_sensor (with_solver ''moveit_calibration/Daniilidis1999'' one_sample))
            (sensor_mount_type (with_solver ''moveit_calibration/Daniilidis1999'' one_sample)) name
             = (res, error_message, sv') \<and>
          solveCameraRobotPose test_collaborators True
            (with_solver ''moveit_calibration/Daniilidis1999'' one_sample) = Inr r
          \<and> solver (snd r) = Some sv')"
proof -
  let ?w = "with_solver ''moveit_calibration/Daniilidis1999'' one_sample"
  have pre: "solver ?w = Some Identity \<and> calibration_solver ?w \<noteq> []"
    by (simp add: with_solver_def)
  note c = C10_parseSolverName_amended[of "''moveit_calibration/Daniilidis1999''" "CHR ''/''"
     ?w Identity test_collaborators True]
  from c have "parseSolverName ''moveit_calibration/Daniilidis1999'' (CHR ''/'')
      = Inr ''Daniilidis1999''"
    by (simp add: spec_after_last_delimiter_def without_final_delimiter_def)
  moreover from c pre have "\<exists>name res error_message sv' r.
          parseSolverName (calibration_solver ?w) (CHR ''/'') = Inr name \<and>
          solver_solve test_collaborators Identity (effector_wrt_world ?w)
            (object_wrt_sensor ?w) (sensor_mount_type ?w) name = (res, error_message, sv') \<and>
          solveCameraRobotPose test_collaborators True ?w = Inr r
          \<and> solver (snd r) = Some sv'"
    by blast
  ultimately show ?thesis by blast
qed

subsection \<open>Solving\<close>

text \<open>
  Claim C8. When the solver reports a failure, \<^verbatim>\<open>solveCameraRobotPose\<close> returns false and
  shows the solver's error message, unchanged, in a warning box after the prefix
  \<open>Error: \<close>; the stored camera-robot pose and the reprojection error shown stay as
  they were, as do the published transform and the samples.
\<close>

theorem C8_failed_solve:
  assumes "solver w = Some sv" and "calibration_solver w \<noteq> []"
    and "solver_solve E sv (effector_wrt_world w) (object_wrt_sensor w) (sensor_mount_type w)
           (spec_after_last_delimiter
              (without_final_delimiter (calibration_solver w) (CHR ''/'')) (CHR ''/''))
         = (False, error_message, sv')"
  shows "\<exists>w'. solveCameraRobotPose E publish_ok w = Inr (False, w') \<and>
      message_boxes w' = message_boxes w @ [Warning ''Solver Failed'' (''Error: '' @ error_message)] \<and>
      calibration_status w' = (StatusError, ''Solver failed.'') \<and>
      camera_robot_pose w' = camera_robot_pose w \<and>
      reprojection_error_label w' = reprojection_error_label w \<and>
      published_transforms w' = published_transforms w \<and>
      effector_wrt_world w' = effector_wrt_world w \<and>
      object_wrt_sensor w' = object_wrt_sensor w"
  using assms
  by (simp add: solveCameraRobotPose_def parseSolverName_nonempty show_message_def)

theorem C8_failed_solve_witness:
  "\<exists>w'. solveCameraRobotPose test_collaborators True
           (with_solver ''moveit_calibration/NoSuchSolver'' one_sample) = Inr (False, w') \<and>
      message_boxes w' = [Warning ''Solver Failed'' ''Error: Unknown handeye solver name: NoSuchSolver''] \<and>
      calibration_status w' = (StatusError, ''Solver failed.'') \<and>
      camera_robot_pose w' = Identity \<and>
      reprojection_error_label w' = None \<and>
      published_transforms w' = [] \<and>
      effector_wrt_world w' = [Identity] \<and>
      object_wrt_sensor w' = [Identity]"
proof -
  let ?w = "with_solver ''moveit_calibration/NoSuchSolver'' one_sample"
  have a: "solver ?w = Some Identity" and b: "calibration_solver ?w \<noteq> []"
    by (simp_all add: with_solver_def)
  have c: "solver_solve test_collaborators Identity (effector_wrt_world ?w)
           (object_wrt_sensor ?w) (sensor_mount_type ?w)
           (spec_after_last_delimiter
              (without_final_delimiter (calibration_solver ?w) (CHR ''/'')) (CHR ''/''))
         = (False, ''Unknown handeye solver name: NoSuchSolver'', Identity)"
    by (simp add: with_solver_def test_collaborators_def latest_sample_solver_def
        spec_after_last_delimiter_def without_final_delimiter_def)
  from C8_failed_solve[OF a b c, of True]
  show ?thesis
    by (simp add: with_solver_def one_sample_def constructed_def)
qed

subsection \<open>Taking a sample\<close>

lemma too_similar_iff:
  "too_similar E candidate priors =
     (\<exists>prior\<in>set priors.
        rotation_angle E (iso_times E (iso_inverse E candidate) prior) < MIN_ROTATION)"
  by (induction priors) auto

text \<open>
  Claim C1. Given the two transforms looked up, \<^verbatim>\<open>takeTransformSamples\<close> accepts the
  candidate pair if and only if the relative rotation angle to every stored sample is at
  least \<open>MIN_ROTATION\<close> (\<open>pi / 36\<close>, 5 degrees), on the effector side and on the sensor
  side; an accepted pair is appended to the two sequences, and on rejection both
  sequences stay as they were. The source measures the angle of
  \<open>inverse(candidate) * prior\<close>, the inverse rotation of the specification's
  \<open>inverse(prior) * candidate\<close>; the assumption says that the two have the same angle.
\<close>

theorem C1_sample_admissibility:
  assumes "\<forall>a b. rotation_angle E (iso_times E (iso_inverse E a) b)
                 = rotation_angle E (iso_times E (iso_inverse E b) a)"
  shows "fst (takeTransformSamples E (Some camera_to_object_tf) (Some base_to_eef_tf) w) =
           ((\<forall>prior\<in>set (effector_wrt_world w).
                MIN_ROTATION \<le> relative_angle E prior (transformToEigen E base_to_eef_tf)) \<and>
            (\<forall>prior\<in>set (object_wrt_sensor w).
                MIN_ROTATION \<le> relative_angle E prior (transformToEigen E camera_to_object_tf)))
     \<and> (if fst (takeTransformSamples E (Some camera_to_object_tf) (Some base_to_eef_tf) w)
        then effector_wrt_world
               (snd (takeTransformSamples E (Some camera_to_object_tf) (Some base_to_eef_tf) w))
               = effector_wrt_world w @ [transformToEigen E base_to_eef_tf] \<and>
             object_wrt_sensor
               (snd (takeTransformSamples E (Some camera_to_object_tf) (Some base_to_eef_tf) w))
               = object_wrt_sensor w @ [transformToEigen E camera_to_object_tf]
        else effector_wrt_world
               (snd (takeTransformSamples E (Some camera_to_object_tf) (Some base_to_eef_tf) w))
               = effector_wrt_world w \<and>
             object_wrt_sensor
               (snd (takeTransformSamples E (Some camera_to_object_tf) (Some base_to_eef_tf) w))
               = object_wrt_sensor w)"
proof -
  have sim: "too_similar E c priors = (\<not> (\<forall>prior\<in>set priors. MIN_ROTATION \<le> relative_angle E prior c))"
    for c priors
  proof -
    have sym: "rotation_angle E (iso_times E (iso_inverse E c) b)
        = rotation_angle E (iso_times E (iso_inverse E b) c)" for b
      using assms by blast
    show ?thesis
      by (simp add: too_similar_iff relative_angle_def not_le sym)
  qed
  show ?thesis
    by (simp add: takeTransformSamples_def Let_def sim show_message_def
        addPoseSampleToTreeView_def)
qed

lemma test_angle_symmetric:
  "rotation_angle test_collaborators (iso_times test_collaborators (iso_inverse test_collaborators a) b)
   = rotation_angle test_collaborators (iso_times test_collaborators (iso_inverse test_collaborators b) a)"
proof -
  obtain a0 a1 a2 a3 where a: "a = (a0, a1, a2, a3)" by (cases a) auto
  obtain b0 b1 b2 b3 where b: "b = (b0, b1, b2, b3)" by (cases b) auto
  have "trace3 (times4 (transpose4 a) b) = trace3 (times4 (transpose4 b) a)"
    unfolding a b
    by (cases a0; cases a1; cases a2; cases a3; cases b0; cases b1; cases b2; cases b3)
       (simp add: times4_def algebra_simps)
  then show ?thesis by (simp add: test_collaborators_def trace_angle_def)
qed

lemma half_turn_angle:
  "relative_angle test_collaborators Identity (quaternion_matrix half_turn_x) = pi"
  by (simp add: relative_angle_def test_collaborators_def Identity_def half_turn_x_def
      times4_def trace_angle_def)

lemma transformToEigen_test: "transformToEigen test_collaborators = quaternion_matrix"
  by (simp add: test_collaborators_def)

lemma no_turn_angle:
  "relative_angle test_collaborators Identity (quaternion_matrix no_turn) = 0"
  by (simp add: relative_angle_def test_collaborators_def Identity_def no_turn_def
      times4_def trace_angle_def)

lemma MIN_ROTATION_bounds: "0 < MIN_ROTATION" "MIN_ROTATION \<le> pi"
  by (simp_all add: MIN_ROTATION_def)

theorem C1_sample_admissibility_witness:
  "fst (takeTransformSamples test_collaborators (Some half_turn_x) (Some half_turn_x) one_sample)
   \<and> effector_wrt_world
       (snd (takeTransformSamples test_collaborators (Some half_turn_x) (Some half_turn_x) one_sample))
       = [Identity, quaternion_matrix half_turn_x]
   \<and> object_wrt_sensor
       (snd (takeTransformSamples test_collaborators (Some half_turn_x) (Some half_turn_x) one_sample))
       = [Identity, quaternion_matrix half_turn_x]
   \<and> \<not> fst (takeTransformSamples test_collaborators (Some half_turn_x) (Some no_turn) one_sample)
   \<and> effector_wrt_world
       (snd (takeTransformSamples test_collaborators (Some half_turn_x) (Some no_turn) one_sample))
       = [Identity]
   \<and> object_wrt_sensor
       (snd (takeTransformSamples test_collaborators (Some half_turn_x) (Some no_turn) one_sample))
       = [Identity]"
proof -
  have sym: "\<forall>a b. rotation_angle test_collaborators
                 (iso_times test_collaborators (iso_inverse test_collaborators a) b)
               = rotation_angle test_collaborators
                 (iso_times test_collaborators (iso_inverse test_collaborators b) a)"
    using test_angle_symmetric by blast
  have stored: "effector_wrt_world one_sample = [Identity]"
    "object_wrt_sensor one_sample = [Identity]"
    by (simp_all add: one_sample_def)
  from C1_sample_admissibility[OF sym, of half_turn_x half_turn_x one_sample]
  have accepted:
    "fst (takeTransformSamples test_collaborators (Some half_turn_x) (Some half_turn_x) one_sample)
     \<and> effector_wrt_world
       (snd (takeTransformSamples test_collaborators (Some half_turn_x) (Some half_turn_x) one_sample))
       = [Identity, quaternion_matrix half_turn_x]
     \<and> object_wrt_sensor
       (snd (takeTransformSamples test_collaborators (Some half_turn_x) (Some half_turn_x) one_sample))
       = [Identity, quaternion_matrix half_turn_x]"
    by (simp add: stored transformToEigen_test half_turn_angle MIN_ROTATION_bounds)
  from C1_sample_admissibility[OF sym, of half_turn_x no_turn one_sample]
  have rejected:
    "\<not> fst (takeTransformSamples test_collaborators (Some half_turn_x) (Some no_turn) one_sample)
     \<and> effector_wrt_world
       (snd (takeTransformSamples test_collaborators (Some half_turn_x) (Some no_turn) one_sample))
       = [Identity]
     \<and> object_wrt_sensor
       (snd (takeTransformSamples test_collaborators (Some half_turn_x) (Some no_turn) one_sample))
       = [Identity]"
    by (simp add: stored transformToEigen_test half_turn_angle no_turn_angle
        MIN_ROTATION_bounds not_le)
  from accepted rejected show ?thesis by blast
qed

lemma off_norm_length: "sqrt (1002001 / 1000000) = 1001 / 1000"
  by (rule real_sqrt_unique) (simp_all add: power2_eq_square)

lemma renormalize_off_norm: "renormalize off_norm = half_turn_x"
  by (simp add: renormalize_def off_norm_def half_turn_x_def Let_def off_norm_length)

text \<open>
  Claim C3 does not hold of the source. \<^verbatim>\<open>takeTransformSamples\<close> converts the two
  messages to Eigen transforms before it renormalises their quaternions, and stores those
  conversions: the renormalised messages reach the tree view only. For a quaternion of
  length 1.001 the stored transform is the conversion of the message as it was looked up.
\<close>

theorem C3_stored_sample_not_renormalized:
  "effector_wrt_world (snd (takeTransformSamples E (Some off_norm) (Some off_norm) constructed))
     = [transformToEigen E off_norm]
   \<and> object_wrt_sensor (snd (takeTransformSamples E (Some off_norm) (Some off_norm) constructed))
     = [transformToEigen E off_norm]
   \<and> tree_view_model (snd (takeTransformSamples E (Some off_norm) (Some off_norm) constructed))
     = [SampleRow 1 (renormalize off_norm) (renormalize off_norm)]
   \<and> renormalize off_norm \<noteq> off_norm
   \<and> quaternion_matrix (renormalize off_norm) \<noteq> quaternion_matrix off_norm"
  by (simp add: takeTransformSamples_def constructed_def Let_def addPoseSampleToTreeView_def
      renormalize_off_norm) (simp add: off_norm_def half_turn_x_def)

subsection \<open>Deleting the latest sample\<close>

lemma emit_Identity:
  "emit_matrix Identity = YDoubles [1, 0, 0, 0, 0, 1, 0, 0, 0, 0, 1, 0, 0, 0, 0, 1]"
  by (simp add: emit_matrix_def coeff_def Identity_def upt_rec)

lemma map_row_major_Identity:
  "map_row_major [1, 0, 0, 0, 0, 1, 0, 0, 0, 0, 1, 0, 0, 0, 0, 1] = Inr Identity"
  by (simp add: map_row_major_def Identity_def)

text \<open>
  Claim C6 does not hold of the source. \<^verbatim>\<open>deleteLatestSampleBtnClicked\<close> tests whether
  \<^verbatim>\<open>joint_states_\<close> is empty, not the pose samples. After a sample file was loaded there
  is a pose sample and no joint state: the slot reports an empty list and removes
  nothing. With a joint state and no pose sample it calls \<^verbatim>\<open>pop_back\<close> on an empty vector.
\<close>

theorem C6_delete_checks_joint_states:
  "(\<exists>w. loadSamplesBtnClicked test_collaborators ''samples.yaml'' one_sample_file constructed = Inr w
       \<and> effector_wrt_world w = [Identity] \<and> object_wrt_sensor w = [Identity]
       \<and> deleteLatestSampleBtnClicked w =
           Inr (show_message (Warning ''Empty Pose samples''
                  ''Cannot delete last sample, list is already empty.'') w))
   \<and> deleteLatestSampleBtnClicked
       ((constructed :: isometry3d widget)\<lparr>joint_names := [''joint1''], joint_states := [[0]]\<rparr>)
     = Inl UndefinedBehaviour"
  by (simp add: loadSamplesBtnClicked_def one_sample_file_def emit_samples_def emit_Identity
      as_vector_double_def map_row_major_Identity constructed_def Let_def
      addPoseSampleToTreeView_def deleteLatestSampleBtnClicked_def)

subsection \<open>Saving and loading samples\<close>

lemma emit_matrix_row_major: "emit_matrix m = YDoubles (row_major m)"
  by (simp add: emit_matrix_def row_major_def upt_rec numeral_2_eq_2 numeral_3_eq_3)

lemma map_row_major_inverse: "map_row_major (row_major m) = Inr m"
proof -
  obtain r0 r1 r2 r3 where m: "m = (r0, r1, r2, r3)" by (cases m) auto
  show ?thesis
    unfolding m
    by (cases r0; cases r1; cases r2; cases r3)
       (simp add: map_row_major_def row_major_def coeff_def)
qed

lemma emit_samples_nth:
  "i < length effector \<Longrightarrow>
     emit_samples effector object ! i = sample_record (effector ! i) (object ! i)"
  by (simp add: emit_samples_def sample_record_def emit_matrix_row_major)

lemma emit_samples_zip:
  assumes "length effector = length object"
  shows "emit_samples effector object = map (\<lambda>(e, t). sample_record e t) (zip effector object)"
proof (rule nth_equalityI)
  show "length (emit_samples effector object)
      = length (map (\<lambda>(e, t). sample_record e t) (zip effector object))"
    using assms by (simp add: emit_samples_def)
next
  fix i assume "i < length (emit_samples effector object)"
  then have "i < length effector" by (simp add: emit_samples_def)
  with assms show "emit_samples effector object ! i
      = map (\<lambda>(e, t). sample_record e t) (zip effector object) ! i"
    by (simp add: emit_samples_nth)
qed

lemma as_vector_double_record:
  "as_vector_double (sample_record e t) ''effector_wrt_world'' = Inr (row_major e)"
  "as_vector_double (sample_record e t) ''object_wrt_sensor'' = Inr (row_major t)"
  by (simp_all add: as_vector_double_def sample_record_def)

lemma load_records_step:
  "load_records E (sample_record e t # nodes) w =
     load_records E nodes
       (w\<lparr>effector_wrt_world := effector_wrt_world w @ [e],
          object_wrt_sensor := object_wrt_sensor w @ [t],
          tree_view_model := tree_view_model w @
            [SampleRow (Suc (length (effector_wrt_world w)))
               (eigenToTransform E e) (eigenToTransform E t)]\<rparr>)"
  by (simp add: as_vector_double_record map_row_major_inverse Let_def
      addPoseSampleToTreeView_def)

lemma load_records_prefix:
  assumes "length es = length ts"
  shows "\<exists>rows. load_records E (map (\<lambda>(e, t). sample_record e t) (zip es ts) @ rest) w =
     load_records E rest
       (w\<lparr>effector_wrt_world := effector_wrt_world w @ es,
          object_wrt_sensor := object_wrt_sensor w @ ts,
          tree_view_model := tree_view_model w @ rows\<rparr>)"
  using assms
proof (induction es ts arbitrary: w rule: list_induct2)
  case Nil
  have "w\<lparr>effector_wrt_world := effector_wrt_world w, object_wrt_sensor := object_wrt_sensor w,
          tree_view_model := tree_view_model w\<rparr> = w" by simp
  then show ?case by (intro exI[of _ "[]"]) simp
next
  case (Cons e es t ts)
  let ?w1 = "w\<lparr>effector_wrt_world := effector_wrt_world w @ [e],
          object_wrt_sensor := object_wrt_sensor w @ [t],
          tree_view_model := tree_view_model w @
            [SampleRow (Suc (length (effector_wrt_world w)))
               (eigenToTransform E e) (eigenToTransform E t)]\<rparr>"
  from Cons.IH[of ?w1] obtain rows where
    ih: "load_records E (map (\<lambda>(e, t). sample_record e t) (zip es ts) @ rest) ?w1 =
     load_records E rest
       (?w1\<lparr>effector_wrt_world := effector_wrt_world ?w1 @ es,
          object_wrt_sensor := object_wrt_sensor ?w1 @ ts,
          tree_view_model := tree_view_model ?w1 @ rows\<rparr>)" by blast
  show ?case
    by (intro exI[of _ "SampleRow (Suc (length (effector_wrt_world w)))
               (eigenToTransform E e) (eigenToTransform E t) # rows"])
       (simp add: load_records_step ih del: load_records.simps)
qed

text \<open>
  Claim C2. For a store whose two sequences have the same length,
  \<^verbatim>\<open>saveSamplesBtnClicked\<close> writes one record per sample pair, in the order of the store,
  each with the 16 coefficients of the two transforms in row-major order under the keys
  \<open>effector_wrt_world\<close> and \<open>object_wrt_sensor\<close>; and \<^verbatim>\<open>loadSamplesBtnClicked\<close> on that
  file, from any state of the widget, leaves exactly the two saved sequences in the
  store. (Numbers are reals here and the document is what yaml-cpp hands over, so the
  rounding of the text file does not appear.)
\<close>

theorem C2_save_load_round_trip:
  assumes "length (effector_wrt_world w) = length (object_wrt_sensor w)"
    and "file_name \<noteq> []"
  shows "\<exists>saved_name yaml_states.
      saveSamplesBtnClicked file_name None w = (Some (saved_name, yaml_states), w)
      \<and> length yaml_states = length (effector_wrt_world w)
      \<and> (\<forall>i<length yaml_states. yaml_states ! i =
            [(''effector_wrt_world'', YDoubles (row_major (effector_wrt_world w ! i))),
             (''object_wrt_sensor'', YDoubles (row_major (object_wrt_sensor w ! i)))])
      \<and> (\<forall>v. \<exists>v'. loadSamplesBtnClicked E saved_name (Document yaml_states) v = Inr v'
            \<and> effector_wrt_world v' = effector_wrt_world w
            \<and> object_wrt_sensor v' = object_wrt_sensor w)"
proof -
  let ?name = "if suffix ''.yaml'' file_name then file_name else file_name @ ''.yaml''"
  let ?doc = "emit_samples (effector_wrt_world w) (object_wrt_sensor w)"
  have save: "saveSamplesBtnClicked file_name None w = (Some (?name, ?doc), w)"
    using assms by (simp add: saveSamplesBtnClicked_def Let_def)
  have len: "length ?doc = length (effector_wrt_world w)"
    by (simp add: emit_samples_def)
  have recs: "\<forall>i<length ?doc. ?doc ! i =
            [(''effector_wrt_world'', YDoubles (row_major (effector_wrt_world w ! i))),
             (''object_wrt_sensor'', YDoubles (row_major (object_wrt_sensor w ! i)))]"
    using len by (simp add: emit_samples_nth sample_record_def)
  have name: "?name \<noteq> []" using assms(2) by simp
  have load: "\<exists>v'. loadSamplesBtnClicked E ?name (Document ?doc) v = Inr v'
            \<and> effector_wrt_world v' = effector_wrt_world w
            \<and> object_wrt_sensor v' = object_wrt_sensor w" for v
  proof -
    let ?v1 = "v\<lparr>effector_wrt_world := [], object_wrt_sensor := []\<rparr>"
    from load_records_prefix[OF assms(1), of E "[]" ?v1] obtain rows where
      "load_records E ?doc ?v1 =
         Inr (None, ?v1\<lparr>effector_wrt_world := effector_wrt_world w,
               object_wrt_sensor := object_wrt_sensor w,
               tree_view_model := tree_view_model v @ rows\<rparr>)"
      by (auto simp: emit_samples_zip[OF assms(1)])
    then show ?thesis using name
      by (simp add: loadSamplesBtnClicked_def Let_def)
  qed
  from save len recs load show ?thesis by blast
qed

theorem C2_save_load_round_trip_witness:
  "saveSamplesBtnClicked ''samples'' None one_sample
     = (Some (''samples.yaml'', [sample_record Identity Identity]), one_sample)
   \<and> (\<exists>v'. loadSamplesBtnClicked test_collaborators ''samples.yaml''
              (Document [sample_record Identity Identity]) constructed = Inr v'
            \<and> effector_wrt_world v' = [Identity]
            \<and> object_wrt_sensor v' = [Identity])"
proof -
  have pre: "length (effector_wrt_world one_sample) = length (object_wrt_sensor one_sample)"
    "''samples'' \<noteq> []"
    by (simp_all add: one_sample_def)
  have save: "saveSamplesBtnClicked ''samples'' None one_sample
     = (Some (''samples.yaml'', [sample_record Identity Identity]), one_sample)"
    by (simp add: saveSamplesBtnClicked_def one_sample_def emit_samples_def
        emit_matrix_row_major sample_record_def suffix_to_prefix)
  from C2_save_load_round_trip[OF pre, of test_collaborators]
  obtain saved_name yaml_states where
    s: "saveSamplesBtnClicked ''samples'' None one_sample
          = (Some (saved_name, yaml_states), one_sample)"
    and l: "\<forall>v. \<exists>v'. loadSamplesBtnClicked test_collaborators saved_name
              (Document yaml_states) v = Inr v'
            \<and> effector_wrt_world v' = effector_wrt_world one_sample
            \<and> object_wrt_sensor v' = object_wrt_sensor one_sample"
    by blast
  from s save have "saved_name = ''samples.yaml''"
    and "yaml_states = [sample_record Identity Identity]" by simp_all
  with l have "\<exists>v'. loadSamplesBtnClicked test_collaborators ''samples.yaml''
              (Document [sample_record Identity Identity]) constructed = Inr v'
            \<and> effector_wrt_world v' = effector_wrt_world one_sample
            \<and> object_wrt_sensor v' = object_wrt_sensor one_sample"
    by blast
  then have "\<exists>v'. loadSamplesBtnClicked test_collaborators ''samples.yaml''
              (Document [sample_record Identity Identity]) constructed = Inr v'
            \<and> effector_wrt_world v' = [Identity]
            \<and> object_wrt_sensor v' = [Identity]"
    by (simp add: one_sample_def)
  with save show ?thesis by blast
qed

lemma half_turn_matrix_not_Identity: "half_turn_matrix \<noteq> Identity"
  by (simp add: half_turn_matrix_def half_turn_x_def Identity_def)

lemma load_records_empty_record:
  "load_records E ([] # nodes) w = Inr (Some ''bad conversion'', w)"
  by (simp add: as_vector_double_def)

text \<open>
  Claim C4, as amended. The slot has no temporary buffer: it clears the two sequences
  and appends to them while it reads. When a record's \<open>effector_wrt_world\<close> cannot be
  converted, the \<^verbatim>\<open>YAML::Exception\<close> is reported in a message box, and the store then
  holds the transforms of the records before that record, not what it held before the
  load.
\<close>

theorem C4_failed_load_keeps_partial_store:
  assumes "file_name \<noteq> []" and "length es = length ts"
    and "as_vector_double bad ''effector_wrt_world'' = Inl what"
  shows "\<exists>w'. loadSamplesBtnClicked E file_name
                 (Document (emit_samples es ts @ bad # rest)) w = Inr w'
      \<and> message_boxes w' = message_boxes w @ [yaml_exception_box what]
      \<and> effector_wrt_world w' = es \<and> object_wrt_sensor w' = ts"
proof -
  let ?w1 = "w\<lparr>effector_wrt_world := [], object_wrt_sensor := []\<rparr>"
  from load_records_prefix[OF assms(2), of E "bad # rest" ?w1] obtain rows where
    "load_records E (emit_samples es ts @ bad # rest) ?w1 =
       Inr (Some what, ?w1\<lparr>effector_wrt_world := es, object_wrt_sensor := ts,
               tree_view_model := tree_view_model w @ rows\<rparr>)"
    using assms(3) by (auto simp: emit_samples_zip[OF assms(2)])
  then show ?thesis using assms(1)
    by (simp add: loadSamplesBtnClicked_def Let_def show_message_def yaml_exception_box_def)
qed

text \<open>
  The claim as stated fails: a store with one identity pair, loading a file whose
  second record is empty, ends with the pair of the file's first record.
\<close>

theorem C4_store_not_restored_counterexample:
  "(case loadSamplesBtnClicked test_collaborators ''samples.yaml''
           (Document [sample_record half_turn_matrix half_turn_matrix, []]) one_sample of
      Inr w' \<Rightarrow> message_boxes w' = [yaml_exception_box ''bad conversion'']
                \<and> effector_wrt_world one_sample = [Identity]
                \<and> effector_wrt_world w' = [half_turn_matrix]
                \<and> half_turn_matrix \<noteq> Identity
    | Inl f \<Rightarrow> False)"
  by (simp add: loadSamplesBtnClicked_def load_records_step load_records_empty_record
      show_message_def yaml_exception_box_def one_sample_def constructed_def
      half_turn_matrix_not_Identity del: load_records.simps)

theorem C4_failed_load_keeps_partial_store_witness:
  "\<exists>w'. loadSamplesBtnClicked test_collaborators ''samples.yaml''
           (Document (emit_samples [half_turn_matrix] [half_turn_matrix] @ [] # [])) one_sample
           = Inr w'
      \<and> message_boxes w' = message_boxes one_sample @ [yaml_exception_box ''bad conversion'']
      \<and> effector_wrt_world w' = [half_turn_matrix]
      \<and> object_wrt_sensor w' = [half_turn_matrix]"
proof -
  have a: "''samples.yaml'' \<noteq> []" by simp
  have b: "length [half_turn_matrix] = length [half_turn_matrix]" by simp
  have c: "as_vector_double [] ''effector_wrt_world'' = Inl ''bad conversion''"
    by (simp add: as_vector_double_def)
  from C4_failed_load_keeps_partial_store[OF a b c, of test_collaborators "[]" one_sample]
  show ?thesis .
qed

subsection \<open>What the slots leave unchanged\<close>

lemma solve_never_faults: "\<exists>r. solveCameraRobotPose E publish_ok w = Inr r"
proof (cases "solver w")
  case None
  then show ?thesis by (auto simp: solveCameraRobotPose_def)
next
  case (Some sv)
  show ?thesis
  proof (cases "calibration_solver w = []")
    case True
    with Some show ?thesis by (auto simp: solveCameraRobotPose_def)
  next
    case False
    from solve_invokes_solver[OF Some False] show ?thesis by blast
  qed
qed

lemma solve_frame:
  assumes "solveCameraRobotPose E publish_ok w = Inr (res, w')"
  shows "effector_wrt_world w' = effector_wrt_world w \<and>
         object_wrt_sensor w' = object_wrt_sensor w \<and>
         joint_states w' = joint_states w \<and> joint_names w' = joint_names w \<and>
         move_group w' = move_group w \<and>
         planning_scene_monitor w' = planning_scene_monitor w \<and>
         auto_progress w' = auto_progress w"
  using assms
  by (auto simp: solveCameraRobotPose_def show_message_def Let_def
      split: option.splits if_splits sum.splits prod.splits)

lemma take_frame:
  assumes "takeTransformSamples E camera_lookup eef_lookup w = (res, w')"
  shows "joint_states w' = joint_states w \<and> joint_names w' = joint_names w \<and>
         move_group w' = move_group w \<and>
         planning_scene_monitor w' = planning_scene_monitor w \<and>
         auto_progress w' = auto_progress w \<and>
         camera_robot_pose w' = camera_robot_pose w \<and>
         reprojection_error_label w' = reprojection_error_label w \<and>
         solver w' = solver w \<and> calibration_solver w' = calibration_solver w"
  using assms
  by (auto simp: takeTransformSamples_def show_message_def Let_def addPoseSampleToTreeView_def
      split: option.splits if_splits)

lemma take_aligned:
  assumes "aligned w"
  shows "aligned (snd (takeTransformSamples E camera_lookup eef_lookup w))"
  using assms
  by (auto simp: takeTransformSamples_def show_message_def Let_def addPoseSampleToTreeView_def
      aligned_def split: option.splits if_splits)

lemma frameNamesEmpty_frame:
  assumes "frameNamesEmpty w = (res, w')"
  shows "w' = w \<or> w' = show_message (Warning ''Empty Frame Name''
              ''At least one of the four frame names is empty.'') w"
  using assms by (auto simp: frameNamesEmpty_def split: if_splits)

lemma saveJointValues_frame:
  assumes "saveJointValues ps w = Inr w'"
  shows "effector_wrt_world w' = effector_wrt_world w \<and>
         object_wrt_sensor w' = object_wrt_sensor w \<and>
         camera_robot_pose w' = camera_robot_pose w \<and>
         reprojection_error_label w' = reprojection_error_label w"
  using assms
  by (auto simp: saveJointValues_def Let_def
      split: if_splits locked_scene.splits option.splits prod.splits)

subsection \<open>Alignment of the two sequences\<close>

lemma aligned_show_message [simp]: "aligned (show_message m w) = aligned w"
  by (simp add: aligned_def show_message_def)

lemma load_records_frame:
  "load_records E doc w = Inr (ex, w') \<Longrightarrow>
     message_boxes w' = message_boxes w \<and>
     camera_robot_pose w' = camera_robot_pose w \<and>
     reprojection_error_label w' = reprojection_error_label w \<and>
     (ex = None \<longrightarrow>
        length (effector_wrt_world w') = length (effector_wrt_world w) + length doc \<and>
        length (object_wrt_sensor w') = length (object_wrt_sensor w) + length doc)"
proof (induction doc arbitrary: w)
  case Nil
  then show ?case by simp
next
  case (Cons node nodes)
  show ?case
  proof (cases "as_vector_double node ''effector_wrt_world''")
    case (Inl what)
    with Cons.prems show ?thesis by auto
  next
    case v1: (Inr v1)
    show ?thesis
    proof (cases "map_row_major v1")
      case (Inl f)
      with v1 Cons.prems show ?thesis by simp
    next
      case m1: (Inr m1)
      show ?thesis
      proof (cases "as_vector_double node ''object_wrt_sensor''")
        case (Inl what)
        with v1 m1 Cons.prems show ?thesis by (auto simp: Let_def)
      next
        case v2: (Inr v2)
        show ?thesis
        proof (cases "map_row_major v2")
          case (Inl f)
          with v1 m1 v2 Cons.prems show ?thesis by (simp add: Let_def)
        next
          case m2: (Inr m2)
          let ?w3 = "addPoseSampleToTreeView (eigenToTransform E m2) (eigenToTransform E m1)
              (Suc (length (effector_wrt_world w)))
              (w\<lparr>effector_wrt_world := effector_wrt_world w @ [m1],
                 object_wrt_sensor := object_wrt_sensor w @ [m2]\<rparr>)"
          from v1 m1 v2 m2 Cons.prems have "load_records E nodes ?w3 = Inr (ex, w')"
            by (simp add: Let_def)
          from Cons.IH[OF this] show ?thesis
            by (simp add: addPoseSampleToTreeView_def)
        qed
      qed
    qed
  qed
qed

lemma load_frame:
  assumes "loadSamplesBtnClicked E file_name content w = Inr w'"
  shows "camera_robot_pose w' = camera_robot_pose w \<and>
         reprojection_error_label w' = reprojection_error_label w"
proof (cases "file_name = []")
  case True
  with assms show ?thesis by (simp add: loadSamplesBtnClicked_def)
next
  case False
  show ?thesis
  proof (cases content)
    case ParseError
    with False assms show ?thesis by (simp add: loadSamplesBtnClicked_def)
  next
    case (Document yaml_states)
    let ?w1 = "w\<lparr>effector_wrt_world := [], object_wrt_sensor := []\<rparr>"
    from False Document assms obtain ex w2 where
      l: "load_records E yaml_states ?w1 = Inr (ex, w2)"
      by (auto simp: loadSamplesBtnClicked_def Let_def split: sum.splits)
    from load_records_frame[OF l] l False Document assms show ?thesis
      by (auto simp: loadSamplesBtnClicked_def Let_def show_message_def split: option.splits)
  qed
qed

lemma load_aligned:
  assumes "loadSamplesBtnClicked E file_name content w = Inr w'"
    and "message_boxes w' = message_boxes w" and "aligned w"
  shows "aligned w'"
proof (cases "file_name = []")
  case True
  with assms show ?thesis by (simp add: loadSamplesBtnClicked_def)
next
  case False
  show ?thesis
  proof (cases content)
    case ParseError
    with False assms show ?thesis by (simp add: loadSamplesBtnClicked_def)
  next
    case (Document yaml_states)
    let ?w1 = "w\<lparr>effector_wrt_world := [], object_wrt_sensor := []\<rparr>"
    from False Document assms obtain ex w2 where
      l: "load_records E yaml_states ?w1 = Inr (ex, w2)"
      by (auto simp: loadSamplesBtnClicked_def Let_def split: sum.splits)
    from load_records_frame[OF l] l False Document assms show ?thesis
      by (auto simp: loadSamplesBtnClicked_def Let_def show_message_def aligned_def
          split: option.splits)
  qed
qed

lemma delete_aligned:
  assumes "deleteLatestSampleBtnClicked w = Inr w'" and "aligned w"
  shows "aligned w'"
  using assms
  by (auto simp: deleteLatestSampleBtnClicked_def Let_def aligned_def show_message_def
      split: if_splits)

lemma takeSample_aligned:
  assumes "takeSampleBtnClicked E camera_lookup eef_lookup publish_ok ps w = Inr w'"
    and "aligned w"
  shows "aligned w'"
proof -
  obtain b1 w1 where f: "frameNamesEmpty w = (b1, w1)" by (cases "frameNamesEmpty w") auto
  from frameNamesEmpty_frame[OF f] assms(2) have a1: "aligned w1" by auto
  obtain b2 w2 where t: "takeTransformSamples E camera_lookup eef_lookup w1 = (b2, w2)"
    by (cases "takeTransformSamples E camera_lookup eef_lookup w1") auto
  from take_aligned[OF a1, of E camera_lookup eef_lookup] t have a2: "aligned w2" by simp
  show ?thesis
  proof (cases "b1 \<or> \<not> b2")
    case True
    with assms(1) f t a1 a2 show ?thesis
      by (cases b1) (auto simp: takeSampleBtnClicked_def)
  next
    case False
    show ?thesis
    proof (cases "length (effector_wrt_world w2) = length (object_wrt_sensor w2)
             \<and> length (effector_wrt_world w2) > 4")
      case solve: True
      obtain b3 w3 where s: "solveCameraRobotPose E publish_ok w2 = Inr (b3, w3)"
        using solve_never_faults[of E publish_ok w2] by (cases "solveCameraRobotPose E publish_ok w2") auto
      from solve_frame[OF s] a2 have a3: "aligned w3" by (simp add: aligned_def)
      show ?thesis
      proof (cases b3)
        case True
        with assms(1) f t False solve s have "saveJointValues ps w3 = Inr w'"
          by (simp add: takeSampleBtnClicked_def)
        from saveJointValues_frame[OF this] a3 show ?thesis by (simp add: aligned_def)
      next
        case b3: False
        with assms(1) f t False solve s have "w' = w3"
          by (simp add: takeSampleBtnClicked_def)
        with a3 show ?thesis by simp
      qed
    next
      case nosolve: False
      from assms(1) f t False have
        "(if length (effector_wrt_world w2) = length (object_wrt_sensor w2)
             \<and> length (effector_wrt_world w2) > 4
          then (case solveCameraRobotPose E publish_ok w2 of
                  Inl f \<Rightarrow> Inl f
                | Inr (False, w3) \<Rightarrow> Inr w3
                | Inr (True, w3) \<Rightarrow> saveJointValues ps w3)
          else saveJointValues ps w2) = Inr w'"
        by (simp add: takeSampleBtnClicked_def)
      then have "saveJointValues ps w2 = Inr w'"
        by (simp only: if_not_P[OF nosolve])
      from saveJointValues_frame[OF this] a2 show ?thesis by (simp add: aligned_def)
    qed
  qed
qed

text \<open>
  Where the source keeps the two sequences aligned. When they have equal length, they
  still have after \<^verbatim>\<open>takeTransformSamples\<close>, after clearing and after saving; after the
  Take sample button and after deleting the latest sample, in the runs that return; and
  after a load that ends without a \<^verbatim>\<open>YAML::Exception\<close> (it opens no message box).
\<close>

lemma alignment_kept_on_return:
  assumes "aligned w"
  shows "aligned (snd (takeTransformSamples E camera_lookup eef_lookup w))
    \<and> (\<forall>w'. takeSampleBtnClicked E camera_lookup eef_lookup publish_ok ps w = Inr w'
           \<longrightarrow> aligned w')
    \<and> (\<forall>w'. deleteLatestSampleBtnClicked w = Inr w' \<longrightarrow> aligned w')
    \<and> aligned (clearSamplesBtnClicked w)
    \<and> aligned (snd (saveSamplesBtnClicked save_name open_error w))
    \<and> (\<forall>w'. loadSamplesBtnClicked E load_name file w = Inr w'
              \<and> message_boxes w' = message_boxes w \<longrightarrow> aligned w')"
proof -
  have clear: "aligned (clearSamplesBtnClicked w)"
    by (simp add: clearSamplesBtnClicked_def aligned_def Let_def)
  have save: "aligned (snd (saveSamplesBtnClicked save_name open_error w))"
    using assms by (simp add: saveSamplesBtnClicked_def Let_def split: option.splits)
  from take_aligned[OF assms] takeSample_aligned[OF _ assms] delete_aligned[OF _ assms]
    clear save load_aligned[OF _ _ assms]
  show ?thesis by blast
qed

text \<open>
  Claim C5 does not hold of the source. The source treats sequences of unequal length
  as an error (\<^verbatim>\<open>saveSamplesBtnClicked\<close> logs it and returns, the two solve-on-sample
  paths test the equality), and every other slot changes both sequences together; but
  \<^verbatim>\<open>loadSamplesBtnClicked\<close> appends a record's effector transform before it converts the
  record's \<open>object_wrt_sensor\<close> entry, and the handler of the \<^verbatim>\<open>YAML::Exception\<close> takes
  nothing back. On a widget as constructed, whose sequences are both empty, a file with
  one record that has an \<open>effector_wrt_world\<close> entry and no \<open>object_wrt_sensor\<close> entry
  is reported in a message box and leaves one transform in the first sequence and none
  in the second. Deleting the latest sample also leaves the invariant behind, without a
  rejection: with a recorded joint state and two empty sequences it calls
  \<^verbatim>\<open>pop_back\<close> on them.
\<close>

theorem C5_failed_load_breaks_alignment:
  "aligned (constructed :: isometry3d widget)
   \<and> loadSamplesBtnClicked test_collaborators ''samples.yaml''
         (Document [[(''effector_wrt_world'', YDoubles (row_major Identity))]])
         (constructed :: isometry3d widget)
       = Inr (constructed\<lparr>effector_wrt_world := [Identity], object_wrt_sensor := [],
                message_boxes := [yaml_exception_box ''bad conversion'']\<rparr>)
   \<and> \<not> aligned ((constructed :: isometry3d widget)
                    \<lparr>effector_wrt_world := [Identity], object_wrt_sensor := [],
                     message_boxes := [yaml_exception_box ''bad conversion'']\<rparr>)
   \<and> aligned ((constructed :: isometry3d widget)
                \<lparr>joint_names := [''joint1''], joint_states := [[0]]\<rparr>)
   \<and> deleteLatestSampleBtnClicked
         ((constructed :: isometry3d widget)\<lparr>joint_names := [''joint1''], joint_states := [[0]]\<rparr>)
       = Inl UndefinedBehaviour"
  by (simp add: loadSamplesBtnClicked_def as_vector_double_def map_row_major_inverse
      Let_def show_message_def constructed_def aligned_def yaml_exception_box_def
      deleteLatestSampleBtnClicked_def)

lemma recorded_one_fields:
  "aligned recorded_one" "joint_states recorded_one = [[0]]"
  "effector_wrt_world recorded_one = [Identity]" "object_wrt_sensor recorded_one = [Identity]"
  "planning_scene_monitor recorded_one"
  "message_boxes recorded_one = []"
  by (simp_all add: recorded_one_def with_solver_def one_sample_def constructed_def aligned_def)

lemma recorded_one_frames: "frameNamesEmpty recorded_one = (False, recorded_one)"
  by (simp add: frameNamesEmpty_def frame_name_def recorded_one_def with_solver_def)

lemma half_turn_against_Identity:
  "rotation_angle test_collaborators
     (iso_times test_collaborators (iso_inverse test_collaborators half_turn_matrix) Identity) = pi"
  by (simp add: test_collaborators_def Identity_def half_turn_matrix_def half_turn_x_def
      times4_def trace_angle_def)

lemma half_turn_not_similar:
  "\<not> too_similar test_collaborators half_turn_matrix [Identity]"
  "\<not> too_similar test_collaborators half_turn_matrix [Identity, Identity, Identity, Identity]"
  by (simp_all add: half_turn_against_Identity MIN_ROTATION_bounds not_less)

lemma take_accepted:
  assumes "\<not> too_similar E (transformToEigen E base_to_eef_tf) (effector_wrt_world w)"
    and "\<not> too_similar E (transformToEigen E camera_to_object_tf) (object_wrt_sensor w)"
  shows "takeTransformSamples E (Some camera_to_object_tf) (Some base_to_eef_tf) w =
     (True, addPoseSampleToTreeView (renormalize camera_to_object_tf) (renormalize base_to_eef_tf)
              (Suc (length (effector_wrt_world w)))
              (w\<lparr>effector_wrt_world := effector_wrt_world w @ [transformToEigen E base_to_eef_tf],
                 object_wrt_sensor :=
                   object_wrt_sensor w @ [transformToEigen E camera_to_object_tf]\<rparr>))"
  using assms by (simp add: takeTransformSamples_def Let_def)

lemma test_transformToEigen_half_turn:
  "transformToEigen test_collaborators half_turn_x = half_turn_matrix"
  by (simp add: test_collaborators_def half_turn_matrix_def)

lemma takeSample_recorded_one:
  "\<exists>w'. takeSampleBtnClicked test_collaborators (Some half_turn_x) (Some half_turn_x) True
          NoLockedScene recorded_one = Inr w'"
proof -
  have t: "takeTransformSamples test_collaborators (Some half_turn_x) (Some half_turn_x)
      recorded_one =
     (True, addPoseSampleToTreeView (renormalize half_turn_x) (renormalize half_turn_x) 2
              (recorded_one\<lparr>effector_wrt_world := [Identity, half_turn_matrix],
                 object_wrt_sensor := [Identity, half_turn_matrix]\<rparr>))"
  proof -
    have a: "\<not> too_similar test_collaborators (transformToEigen test_collaborators half_turn_x)
        (effector_wrt_world recorded_one)"
      and b: "\<not> too_similar test_collaborators (transformToEigen test_collaborators half_turn_x)
        (object_wrt_sensor recorded_one)"
      by (simp_all add: test_transformToEigen_half_turn recorded_one_fields
          half_turn_not_similar del: too_similar.simps)
    from take_accepted[OF a b] show ?thesis
      by (simp add: test_transformToEigen_half_turn recorded_one_fields numeral_2_eq_2)
  qed
  show ?thesis
    by (simp add: takeSampleBtnClicked_def recorded_one_frames t addPoseSampleToTreeView_def
        saveJointValues_def recorded_one_fields)
qed

lemma delete_recorded_one:
  "\<exists>w'. deleteLatestSampleBtnClicked recorded_one = Inr w'"
  by (simp add: deleteLatestSampleBtnClicked_def recorded_one_fields Let_def)

lemma load_records_Nil: "load_records E [] w = Inr (None, w)"
  by simp

lemma load_recorded_one:
  "\<exists>w'. loadSamplesBtnClicked test_collaborators ''samples.yaml'' one_sample_file recorded_one
          = Inr w' \<and> message_boxes w' = message_boxes recorded_one"
proof -
  have d: "emit_samples [Identity] [Identity] = [sample_record Identity Identity]"
    by (simp add: emit_samples_def emit_matrix_row_major sample_record_def)
  show ?thesis
    by (simp add: loadSamplesBtnClicked_def one_sample_file_def d load_records_step
        load_records_Nil Let_def del: load_records.simps)
qed

lemma alignment_kept_on_return_example:
  "aligned (snd (takeTransformSamples test_collaborators (Some half_turn_x) (Some half_turn_x)
                   recorded_one))
    \<and> (\<exists>w'. takeSampleBtnClicked test_collaborators (Some half_turn_x) (Some half_turn_x) True
                NoLockedScene recorded_one = Inr w' \<and> aligned w')
    \<and> (\<exists>w'. deleteLatestSampleBtnClicked recorded_one = Inr w' \<and> aligned w')
    \<and> aligned (clearSamplesBtnClicked recorded_one)
    \<and> aligned (snd (saveSamplesBtnClicked ''samples'' None recorded_one))
    \<and> (\<exists>w'. loadSamplesBtnClicked test_collaborators ''samples.yaml'' one_sample_file
                recorded_one = Inr w'
              \<and> message_boxes w' = message_boxes recorded_one \<and> aligned w')"
  using alignment_kept_on_return[OF recorded_one_fields(1),
      of test_collaborators "Some half_turn_x" "Some half_turn_x" True NoLockedScene
         "''samples''" None "''samples.yaml''" one_sample_file]
    takeSample_recorded_one delete_recorded_one load_recorded_one
  by blast

subsection \<open>Calibrating with recorded joint states\<close>

lemma checkJointStates_cong:
  "joint_names w' = joint_names w \<Longrightarrow> joint_states w' = joint_states w
     \<Longrightarrow> checkJointStates w' = checkJointStates w"
  by (simp add: checkJointStates_def)

lemma plan_execute_requested:
  assumes "recorded_targets w n" and "getValue (auto_progress w) = int k" and "k < n"
  shows "planning_res (autoExecuteBtnClicked True (planFinished (autoPlanBtnClicked True w)))
           = SUCCESS
       \<and> auto_progress (autoExecuteBtnClicked True (planFinished (autoPlanBtnClicked True w)))
           = auto_progress w
       \<and> joint_states (autoExecuteBtnClicked True (planFinished (autoPlanBtnClicked True w)))
           = joint_states w
       \<and> joint_names (autoExecuteBtnClicked True (planFinished (autoPlanBtnClicked True w)))
           = joint_names w
       \<and> move_group (autoExecuteBtnClicked True (planFinished (autoPlanBtnClicked True w)))
           = move_group w
       \<and> planning_scene_monitor
            (autoExecuteBtnClicked True (planFinished (autoPlanBtnClicked True w)))
           = planning_scene_monitor w"
proof -
  have "checkJointStates (w\<lparr>auto_plan_btn_enabled := False, planning_res := SUCCESS\<rparr>)
      = checkJointStates w"
    by (rule checkJointStates_cong) simp_all
  with assms have c: "checkJointStates (w\<lparr>auto_plan_btn_enabled := False, planning_res := SUCCESS\<rparr>)"
    by (simp add: recorded_targets_def)
  from assms c have
    p: "autoPlanBtnClicked True w =
          w\<lparr>auto_plan_btn_enabled := False, planning_res := SUCCESS, current_plan := True,
            planning_res := SUCCESS\<rparr>"
    by (simp add: autoPlanBtnClicked_def computePlan_def Let_def recorded_targets_def
        getValue_def)
  from assms show ?thesis
    unfolding p
    by (simp add: planFinished_def autoExecuteBtnClicked_def computeExecution_def Let_def
        recorded_targets_def)
qed

lemma executeFinished_advances:
  assumes "planning_res w = SUCCESS" and "bar_minimum (auto_progress w) = 0"
    and "bar_maximum (auto_progress w) = int n" and "getValue (auto_progress w) = int k"
    and "k < n"
  shows "\<exists>w'. executeFinished E camera_lookup eef_lookup publish_ok w = Inr w'
       \<and> auto_progress w' = (auto_progress w)\<lparr>bar_value := int k + 1\<rparr>
       \<and> joint_states w' = joint_states w \<and> joint_names w' = joint_names w
       \<and> move_group w' = move_group w
       \<and> planning_scene_monitor w' = planning_scene_monitor w"
proof -
  let ?w1 = "w\<lparr>auto_execute_btn_enabled := True,
               auto_progress := (auto_progress w)\<lparr>bar_value := int k + 1\<rparr>\<rparr>"
  from assms have sv: "setValue (auto_progress w) (getValue (auto_progress w) + 1)
      = (auto_progress w)\<lparr>bar_value := int k + 1\<rparr>"
    by (simp add: setValue_def QProgressBar_setValue_def getValue_def)
  obtain b1 wf where f: "frameNamesEmpty ?w1 = (b1, wf)"
    by (cases "frameNamesEmpty ?w1") auto
  define w2 where "w2 = (case frameNamesEmpty ?w1 of
                        (True, w') \<Rightarrow> w'
                      | (False, w') \<Rightarrow> snd (takeTransformSamples E camera_lookup eef_lookup w'))"
  have fr: "auto_progress w2 = (auto_progress w)\<lparr>bar_value := int k + 1\<rparr>
       \<and> joint_states w2 = joint_states w \<and> joint_names w2 = joint_names w
       \<and> move_group w2 = move_group w
       \<and> planning_scene_monitor w2 = planning_scene_monitor w"
  proof (cases b1)
    case True
    with f have "w2 = wf" by (simp add: w2_def)
    with frameNamesEmpty_frame[OF f] show ?thesis by (auto simp: show_message_def)
  next
    case False
    with f have w2: "w2 = snd (takeTransformSamples E camera_lookup eef_lookup wf)"
      by (simp add: w2_def)
    obtain b2 where "takeTransformSamples E camera_lookup eef_lookup wf = (b2, w2)"
      unfolding w2 by (cases "takeTransformSamples E camera_lookup eef_lookup wf") auto
    from take_frame[OF this] frameNamesEmpty_frame[OF f] show ?thesis
      by (auto simp: show_message_def)
  qed
  have ex: "executeFinished E camera_lookup eef_lookup publish_ok w =
      (if length (effector_wrt_world w2) = length (object_wrt_sensor w2)
            \<and> length (effector_wrt_world w2) > 4
       then (case solveCameraRobotPose E publish_ok w2 of
               Inl f \<Rightarrow> Inl f
             | Inr (res, w3) \<Rightarrow> Inr w3)
       else Inr w2)"
    using assms(1) by (simp add: executeFinished_def Let_def sv w2_def)
  show ?thesis
  proof (cases "length (effector_wrt_world w2) = length (object_wrt_sensor w2)
            \<and> length (effector_wrt_world w2) > 4")
    case True
    obtain b3 w3 where s: "solveCameraRobotPose E publish_ok w2 = Inr (b3, w3)"
      using solve_never_faults[of E publish_ok w2]
      by (cases "solveCameraRobotPose E publish_ok w2") auto
    from ex True s have "executeFinished E camera_lookup eef_lookup publish_ok w = Inr w3"
      by simp
    with solve_frame[OF s] fr show ?thesis by simp
  next
    case False
    from ex have "executeFinished E camera_lookup eef_lookup publish_ok w = Inr w2"
      by (simp only: if_not_P[OF False])
    with fr show ?thesis by simp
  qed
qed

lemma cycle_advances:
  assumes "recorded_targets w n" and "getValue (auto_progress w) = int k" and "k < n"
  shows "\<exists>w'. plan_execute_cycle E True True camera_lookup eef_lookup publish_ok w = Inr w'
       \<and> recorded_targets w' n \<and> getValue (auto_progress w') = int (Suc k)"
proof -
  let ?w2 = "autoExecuteBtnClicked True (planFinished (autoPlanBtnClicked True w))"
  note r = plan_execute_requested[OF assms]
  from r assms have pre: "planning_res ?w2 = SUCCESS" "bar_minimum (auto_progress ?w2) = 0"
    "bar_maximum (auto_progress ?w2) = int n" "getValue (auto_progress ?w2) = int k"
    by (simp_all add: recorded_targets_def)
  from executeFinished_advances[OF pre assms(3), of E camera_lookup eef_lookup publish_ok]
  obtain w' where e: "executeFinished E camera_lookup eef_lookup publish_ok ?w2 = Inr w'"
    and p: "auto_progress w' = (auto_progress ?w2)\<lparr>bar_value := int k + 1\<rparr>"
    and j: "joint_states w' = joint_states ?w2" "joint_names w' = joint_names ?w2"
      "move_group w' = move_group ?w2"
      "planning_scene_monitor w' = planning_scene_monitor ?w2"
    by blast
  have "checkJointStates w' = checkJointStates w"
    by (rule checkJointStates_cong) (simp_all add: j r)
  with p j r assms(1) have "recorded_targets w' n"
    by (simp add: recorded_targets_def)
  moreover from p have "getValue (auto_progress w') = int (Suc k)"
    by (simp add: getValue_def)
  ultimately show ?thesis using e by (simp add: plan_execute_cycle_def)
qed

lemma no_more_joint_states:
  assumes "bar_maximum (auto_progress w) \<noteq> int (length (joint_states w))
           \<or> getValue (auto_progress w) = bar_maximum (auto_progress w)"
  shows "planning_res (computePlan plan_ok w) = FAILURE_NO_JOINT_STATE"
  using assms by (auto simp: computePlan_def Let_def)

text \<open>
  Claim C9. From progress 0 with three valid recorded joint states (progress bar 0..3,
  planning scene monitor and matching move group present), three rounds of Plan and
  Execute in which planning and execution succeed end with progress 1, 2 and 3, whatever
  the transform lookups, the solver and the publisher answer; the next plan request
  fails with \<open>FAILURE_NO_JOINT_STATE\<close>. In any state, \<^verbatim>\<open>computePlan\<close> fails with
  \<open>FAILURE_NO_JOINT_STATE\<close> when the progress value equals the maximum of the progress
  bar or that maximum differs from the number of stored joint states.
\<close>

theorem C9_three_cycles_then_no_joint_state:
  assumes "recorded_targets w 3" and "getValue (auto_progress w) = 0"
  shows "(\<exists>w1 w2 w3.
        plan_execute_cycle E True True camera1 eef1 publish1 w = Inr w1
      \<and> getValue (auto_progress w1) = 1
      \<and> plan_execute_cycle E True True camera2 eef2 publish2 w1 = Inr w2
      \<and> getValue (auto_progress w2) = 2
      \<and> plan_execute_cycle E True True camera3 eef3 publish3 w2 = Inr w3
      \<and> getValue (auto_progress w3) = 3
      \<and> planning_res (computePlan plan_ok w3) = FAILURE_NO_JOINT_STATE
      \<and> planning_res (autoPlanBtnClicked plan_ok w3) = FAILURE_NO_JOINT_STATE)
    \<and> (bar_maximum (auto_progress v) \<noteq> int (length (joint_states v))
           \<or> getValue (auto_progress v) = bar_maximum (auto_progress v)
        \<longrightarrow> planning_res (computePlan plan_ok v) = FAILURE_NO_JOINT_STATE)"
proof -
  from assms(2) have v0: "getValue (auto_progress w) = int 0" by simp
  from cycle_advances[OF assms(1) v0, of E camera1 eef1 publish1] obtain w1 where
    c1: "plan_execute_cycle E True True camera1 eef1 publish1 w = Inr w1"
    and r1: "recorded_targets w1 3" and v1: "getValue (auto_progress w1) = int 1"
    by auto
  from cycle_advances[OF r1 v1, of E camera2 eef2 publish2] obtain w2 where
    c2: "plan_execute_cycle E True True camera2 eef2 publish2 w1 = Inr w2"
    and r2: "recorded_targets w2 3" and v2: "getValue (auto_progress w2) = int 2"
    by auto
  from cycle_advances[OF r2 v2, of E camera3 eef3 publish3] obtain w3 where
    c3: "plan_execute_cycle E True True camera3 eef3 publish3 w2 = Inr w3"
    and r3: "recorded_targets w3 3" and v3: "getValue (auto_progress w3) = int 3"
    by auto
  from r3 v3 have full: "getValue (auto_progress w3) = bar_maximum (auto_progress w3)"
    by (simp add: recorded_targets_def)
  then have n1: "planning_res (computePlan plan_ok w3) = FAILURE_NO_JOINT_STATE"
    by (simp add: no_more_joint_states)
  from full have n2: "planning_res (autoPlanBtnClicked plan_ok w3) = FAILURE_NO_JOINT_STATE"
    by (simp add: autoPlanBtnClicked_def no_more_joint_states)
  from c1 v1 c2 v2 c3 v3 n1 n2 no_more_joint_states[of v plan_ok]
  show ?thesis by auto
qed

lemma three_targets_ready:
  "recorded_targets three_targets 3" "getValue (auto_progress three_targets) = 0"
  by (simp_all add: recorded_targets_def three_targets_def with_solver_def constructed_def
      checkJointStates_def getValue_def)

theorem C9_three_cycles_then_no_joint_state_witness:
  "(\<exists>w1 w2 w3.
        plan_execute_cycle test_collaborators True True (Some half_turn_x) (Some half_turn_x) True
          three_targets = Inr w1
      \<and> getValue (auto_progress w1) = 1
      \<and> plan_execute_cycle test_collaborators True True (Some no_turn) (Some no_turn) True w1
          = Inr w2
      \<and> getValue (auto_progress w2) = 2
      \<and> plan_execute_cycle test_collaborators True True None None True w2 = Inr w3
      \<and> getValue (auto_progress w3) = 3
      \<and> planning_res (computePlan True w3) = FAILURE_NO_JOINT_STATE
      \<and> planning_res (autoPlanBtnClicked True w3) = FAILURE_NO_JOINT_STATE)
   \<and> planning_res (computePlan True (clearSamplesBtnClicked three_targets))
        = FAILURE_NO_JOINT_STATE"
proof -
  note t = C9_three_cycles_then_no_joint_state[OF three_targets_ready,
      of test_collaborators "Some half_turn_x" "Some half_turn_x" True
         "Some no_turn" "Some no_turn" True None None True True
         "clearSamplesBtnClicked three_targets"]
  have "getValue (auto_progress (clearSamplesBtnClicked three_targets))
      = bar_maximum (auto_progress (clearSamplesBtnClicked three_targets))"
    by (simp add: clearSamplesBtnClicked_def three_targets_def Let_def setMax_def setValue_def
        QProgressBar_setMaximum_def QProgressBar_setRange_def QProgressBar_setValue_def
        getValue_def)
  with t show ?thesis by blast
qed

subsection \<open>The calibration result\<close>

lemma solve_success_pose:
  assumes "solver v = Some sv" and "calibration_solver v \<noteq> []"
    and "solver_solve E sv (effector_wrt_world v) (object_wrt_sensor v) (sensor_mount_type v)
           (spec_after_last_delimiter
              (without_final_delimiter (calibration_solver v) (CHR ''/'')) (CHR ''/''))
         = (True, error_message, sv')"
  shows "\<exists>res v'. solveCameraRobotPose E publish_ok v = Inr (res, v')
      \<and> camera_robot_pose v' = solver_getCameraRobotPose E sv'
      \<and> reprojection_error_label v' =
          Some (solver_getReprojectionError E sv' (effector_wrt_world v) (object_wrt_sensor v)
                  (solver_getCameraRobotPose E sv') (sensor_mount_type v))"
  using assms
  by (auto simp: solveCameraRobotPose_def parseSolverName_nonempty show_message_def Let_def)

lemma delete_keeps_result:
  assumes "deleteLatestSampleBtnClicked w = Inr w'"
  shows "camera_robot_pose w' = camera_robot_pose w
       \<and> reprojection_error_label w' = reprojection_error_label w"
  using assms
  by (auto simp: deleteLatestSampleBtnClicked_def Let_def show_message_def split: if_splits)

lemma clear_keeps_result:
  "camera_robot_pose (clearSamplesBtnClicked w) = camera_robot_pose w
   \<and> reprojection_error_label (clearSamplesBtnClicked w) = reprojection_error_label w"
  by (simp add: clearSamplesBtnClicked_def Let_def)

lemma takeSample_result:
  assumes "takeSampleBtnClicked E camera_lookup eef_lookup publish_ok ps w = Inr w'"
  shows "if \<not> fst (frameNamesEmpty w)
            \<and> fst (takeTransformSamples E camera_lookup eef_lookup w)
            \<and> aligned (snd (takeTransformSamples E camera_lookup eef_lookup w))
            \<and> 4 < length (effector_wrt_world (snd (takeTransformSamples E camera_lookup eef_lookup w)))
         then (\<exists>r. solveCameraRobotPose E publish_ok
                      (snd (takeTransformSamples E camera_lookup eef_lookup w)) = Inr r
                 \<and> camera_robot_pose w' = camera_robot_pose (snd r)
                 \<and> reprojection_error_label w' = reprojection_error_label (snd r))
         else camera_robot_pose w' = camera_robot_pose w
            \<and> reprojection_error_label w' = reprojection_error_label w"
proof -
  obtain b1 w1 where f: "frameNamesEmpty w = (b1, w1)" by (cases "frameNamesEmpty w") auto
  show ?thesis
  proof (cases b1)
    case True
    with f assms have "w' = w1" by (simp add: takeSampleBtnClicked_def)
    with frameNamesEmpty_frame[OF f] f True show ?thesis
      by (auto simp: show_message_def)
  next
    case nb1: False
    with f have w1: "w1 = w" by (auto simp: frameNamesEmpty_def split: if_splits)
    obtain b2 w2 where t: "takeTransformSamples E camera_lookup eef_lookup w = (b2, w2)"
      by (cases "takeTransformSamples E camera_lookup eef_lookup w") auto
    note tf = take_frame[OF t]
    show ?thesis
    proof (cases b2)
      case False
      with f nb1 w1 t assms have "w' = w2" by (simp add: takeSampleBtnClicked_def)
      with tf t False show ?thesis by simp
    next
      case b2: True
      show ?thesis
      proof (cases "length (effector_wrt_world w2) = length (object_wrt_sensor w2)
             \<and> length (effector_wrt_world w2) > 4")
        case solve: True
        obtain b3 w3 where s: "solveCameraRobotPose E publish_ok w2 = Inr (b3, w3)"
          using solve_never_faults[of E publish_ok w2]
          by (cases "solveCameraRobotPose E publish_ok w2") auto
        have "camera_robot_pose w' = camera_robot_pose w3
            \<and> reprojection_error_label w' = reprojection_error_label w3"
        proof (cases b3)
          case True
          with assms f nb1 w1 t b2 solve s have "saveJointValues ps w3 = Inr w'"
            by (simp add: takeSampleBtnClicked_def)
          from saveJointValues_frame[OF this] show ?thesis by simp
        next
          case False
          with assms f nb1 w1 t b2 solve s have "w' = w3"
            by (simp add: takeSampleBtnClicked_def)
          then show ?thesis by simp
        qed
        with f nb1 t b2 solve s show ?thesis by (simp add: aligned_def)
      next
        case nosolve: False
        from assms f nb1 w1 t b2 have
          "(if length (effector_wrt_world w2) = length (object_wrt_sensor w2)
               \<and> length (effector_wrt_world w2) > 4
            then (case solveCameraRobotPose E publish_ok w2 of
                    Inl f \<Rightarrow> Inl f
                  | Inr (False, w3) \<Rightarrow> Inr w3
                  | Inr (True, w3) \<Rightarrow> saveJointValues ps w3)
            else saveJointValues ps w2) = Inr w'"
          by (simp add: takeSampleBtnClicked_def)
        then have "saveJointValues ps w2 = Inr w'"
          by (simp only: if_not_P[OF nosolve])
        from saveJointValues_frame[OF this] tf have
          "camera_robot_pose w' = camera_robot_pose w
            \<and> reprojection_error_label w' = reprojection_error_label w" by simp
        moreover from nosolve t have
          "\<not> (aligned (snd (takeTransformSamples E camera_lookup eef_lookup w))
            \<and> 4 < length (effector_wrt_world
                       (snd (takeTransformSamples E camera_lookup eef_lookup w))))"
          by (simp add: aligned_def)
        ultimately show ?thesis by auto
      qed
    qed
  qed
qed

text \<open>
  Claim C7, as amended. The Take sample button runs the solver when it has appended a
  sample and the two sequences then have equal length above 4: the stored pose and
  reprojection error are then what \<^verbatim>\<open>solveCameraRobotPose\<close> leaves, which for an available
  solver that succeeds is the solver's new pose and its reprojection error; otherwise
  the button leaves them as they were. Deleting the latest sample, clearing and loading
  samples neither recompute nor clear the result: the stored pose and the reprojection
  error shown stay as they were, whatever the number of samples left.
\<close>

theorem C7_result_lifecycle:
  "(\<forall>w'. takeSampleBtnClicked E camera_lookup eef_lookup publish_ok ps w = Inr w' \<longrightarrow>
      (if \<not> fst (frameNamesEmpty w)
            \<and> fst (takeTransformSamples E camera_lookup eef_lookup w)
            \<and> aligned (snd (takeTransformSamples E camera_lookup eef_lookup w))
            \<and> 4 < length (effector_wrt_world (snd (takeTransformSamples E camera_lookup eef_lookup w)))
       then (\<exists>r. solveCameraRobotPose E publish_ok
                    (snd (takeTransformSamples E camera_lookup eef_lookup w)) = Inr r
               \<and> camera_robot_pose w' = camera_robot_pose (snd r)
               \<and> reprojection_error_label w' = reprojection_error_label (snd r))
       else camera_robot_pose w' = camera_robot_pose w
          \<and> reprojection_error_label w' = reprojection_error_label w))
   \<and> (solver v = Some sv \<and> calibration_solver v \<noteq> []
       \<and> solver_solve E sv (effector_wrt_world v) (object_wrt_sensor v) (sensor_mount_type v)
           (spec_after_last_delimiter
              (without_final_delimiter (calibration_solver v) (CHR ''/'')) (CHR ''/''))
         = (True, error_message, sv')
      \<longrightarrow> (\<exists>res v'. solveCameraRobotPose E publish_ok v = Inr (res, v')
            \<and> camera_robot_pose v' = solver_getCameraRobotPose E sv'
            \<and> reprojection_error_label v' =
                Some (solver_getReprojectionError E sv' (effector_wrt_world v)
                        (object_wrt_sensor v) (solver_getCameraRobotPose E sv')
                        (sensor_mount_type v))))
   \<and> (\<forall>w'. deleteLatestSampleBtnClicked w = Inr w' \<longrightarrow>
          camera_robot_pose w' = camera_robot_pose w
          \<and> reprojection_error_label w' = reprojection_error_label w)
   \<and> camera_robot_pose (clearSamplesBtnClicked w) = camera_robot_pose w
   \<and> reprojection_error_label (clearSamplesBtnClicked w) = reprojection_error_label w
   \<and> (\<forall>w'. loadSamplesBtnClicked E file_name content w = Inr w' \<longrightarrow>
          camera_robot_pose w' = camera_robot_pose w
          \<and> reprojection_error_label w' = reprojection_error_label w)"
proof -
  have a: "\<forall>w'. takeSampleBtnClicked E camera_lookup eef_lookup publish_ok ps w = Inr w' \<longrightarrow>
      (if \<not> fst (frameNamesEmpty w)
            \<and> fst (takeTransformSamples E camera_lookup eef_lookup w)
            \<and> aligned (snd (takeTransformSamples E camera_lookup eef_lookup w))
            \<and> 4 < length (effector_wrt_world (snd (takeTransformSamples E camera_lookup eef_lookup w)))
       then (\<exists>r. solveCameraRobotPose E publish_ok
                    (snd (takeTransformSamples E camera_lookup eef_lookup w)) = Inr r
               \<and> camera_robot_pose w' = camera_robot_pose (snd r)
               \<and> reprojection_error_label w' = reprojection_error_label (snd r))
       else camera_robot_pose w' = camera_robot_pose w
          \<and> reprojection_error_label w' = reprojection_error_label w)"
    using takeSample_result by blast
  from a solve_success_pose[of v sv E error_message sv' publish_ok]
    delete_keeps_result[of w] clear_keeps_result[of w] load_frame[of E file_name content w]
  show ?thesis by blast
qed

lemma four_samples_fields:
  "effector_wrt_world four_samples = [Identity, Identity, Identity, Identity]"
  "object_wrt_sensor four_samples = [Identity, Identity, Identity, Identity]"
  "camera_robot_pose four_samples = Identity"
  "planning_scene_monitor four_samples"
  "solver four_samples = Some Identity"
  "calibration_solver four_samples = ''moveit_calibration/Daniilidis1999''"
  "sensor_mount_type four_samples = EYE_TO_HAND"
  by (simp_all add: four_samples_def with_solver_def constructed_def selected_solver_def)

lemma four_samples_frames: "frameNamesEmpty four_samples = (False, four_samples)"
  by (simp add: frameNamesEmpty_def frame_name_def four_samples_def with_solver_def)

lemma take_fifth_sample:
  "takeTransformSamples test_collaborators (Some half_turn_x) (Some half_turn_x) four_samples
     = (True, five_samples)"
proof -
  have a: "\<not> too_similar test_collaborators (transformToEigen test_collaborators half_turn_x)
      (effector_wrt_world four_samples)"
    and b: "\<not> too_similar test_collaborators (transformToEigen test_collaborators half_turn_x)
      (object_wrt_sensor four_samples)"
    by (simp_all add: test_transformToEigen_half_turn four_samples_fields
        half_turn_not_similar del: too_similar.simps)
  from take_accepted[OF a b] show ?thesis
    by (simp add: test_transformToEigen_half_turn four_samples_fields five_samples_def
        eval_nat_numeral)
qed

lemma five_samples_fields:
  "effector_wrt_world five_samples = [Identity, Identity, Identity, Identity, half_turn_matrix]"
  "object_wrt_sensor five_samples = [Identity, Identity, Identity, Identity, half_turn_matrix]"
  "solver five_samples = Some Identity"
  "calibration_solver five_samples = ''moveit_calibration/Daniilidis1999''"
  "sensor_mount_type five_samples = EYE_TO_HAND"
  "aligned five_samples"
  by (simp_all add: five_samples_def addPoseSampleToTreeView_def four_samples_fields aligned_def)

lemma selected_algorithm:
  "spec_after_last_delimiter
     (without_final_delimiter ''moveit_calibration/Daniilidis1999'' (CHR ''/'')) (CHR ''/'')
   = ''Daniilidis1999''"
  by (simp add: spec_after_last_delimiter_def without_final_delimiter_def)

lemma solve_five_samples:
  "solver_solve test_collaborators Identity (effector_wrt_world five_samples)
     (object_wrt_sensor five_samples) (sensor_mount_type five_samples)
     (spec_after_last_delimiter
        (without_final_delimiter (calibration_solver five_samples) (CHR ''/'')) (CHR ''/''))
   = (True, [], half_turn_matrix)"
  by (simp add: five_samples_fields selected_algorithm test_collaborators_def
      latest_sample_solver_def)

lemma takeSample_fifth:
  "\<exists>w'. takeSampleBtnClicked test_collaborators (Some half_turn_x) (Some half_turn_x) True
          NoLockedScene four_samples = Inr w'"
proof -
  obtain r where s: "solveCameraRobotPose test_collaborators True five_samples = Inr r"
    using solve_never_faults by blast
  obtain res w3 where r: "r = (res, w3)" by (cases r) auto
  from solve_frame[OF s[unfolded r]] have "planning_scene_monitor w3"
    by (simp add: five_samples_def addPoseSampleToTreeView_def four_samples_fields)
  then show ?thesis
    by (cases res)
       (simp_all add: takeSampleBtnClicked_def four_samples_frames take_fifth_sample
          five_samples_fields s r saveJointValues_def)
qed

text \<open>
  The claim as stated fails: with six samples and the result computed from them,
  deleting the latest leaves five samples and the same stored result, although solving
  the five samples gives another pose.
\<close>

theorem C7_delete_keeps_stale_result_counterexample:
  "(case deleteLatestSampleBtnClicked six_samples of
      Inr w' \<Rightarrow>
        length (effector_wrt_world w') = 5 \<and> length (object_wrt_sensor w') = 5
        \<and> camera_robot_pose w' = half_turn_matrix
        \<and> (case solveCameraRobotPose test_collaborators True w' of
             Inr (res, w'') \<Rightarrow> res \<and> camera_robot_pose w'' = Identity
           | Inl f \<Rightarrow> False)
    | Inl f \<Rightarrow> False)
   \<and> half_turn_matrix \<noteq> Identity"
  by (simp add: deleteLatestSampleBtnClicked_def six_samples_def Let_def with_solver_def
      constructed_def solveCameraRobotPose_def selected_solver_def
      parseSolverName_nonempty selected_algorithm test_collaborators_def
      latest_sample_solver_def frame_name_def half_turn_matrix_not_Identity)

theorem C7_result_lifecycle_witness:
  "(\<exists>w'. takeSampleBtnClicked test_collaborators (Some half_turn_x) (Some half_turn_x) True
            NoLockedScene four_samples = Inr w'
         \<and> camera_robot_pose four_samples = Identity
         \<and> camera_robot_pose w' = half_turn_matrix)
   \<and> (\<exists>w'. deleteLatestSampleBtnClicked six_samples = Inr w'
         \<and> camera_robot_pose w' = camera_robot_pose six_samples)
   \<and> camera_robot_pose (clearSamplesBtnClicked six_samples) = camera_robot_pose six_samples
   \<and> (\<exists>w'. loadSamplesBtnClicked test_collaborators ''samples.yaml'' one_sample_file
              six_samples = Inr w'
         \<and> camera_robot_pose w' = camera_robot_pose six_samples)"
proof -
  note four = C7_result_lifecycle[of test_collaborators "Some half_turn_x" "Some half_turn_x"
      True NoLockedScene four_samples five_samples Identity "[]" half_turn_matrix
      "''samples.yaml''" one_sample_file]
  note six = C7_result_lifecycle[of test_collaborators "Some half_turn_x" "Some half_turn_x"
      True NoLockedScene six_samples five_samples Identity "[]" half_turn_matrix
      "''samples.yaml''" one_sample_file]
  from takeSample_fifth obtain w' where
    t: "takeSampleBtnClicked test_collaborators (Some half_turn_x) (Some half_turn_x) True
            NoLockedScene four_samples = Inr w'" by blast
  have cond: "\<not> fst (frameNamesEmpty four_samples)
      \<and> fst (takeTransformSamples test_collaborators (Some half_turn_x) (Some half_turn_x)
                four_samples)
      \<and> aligned (snd (takeTransformSamples test_collaborators (Some half_turn_x)
                (Some half_turn_x) four_samples))
      \<and> 4 < length (effector_wrt_world (snd (takeTransformSamples test_collaborators
                (Some half_turn_x) (Some half_turn_x) four_samples)))"
    by (simp add: four_samples_frames take_fifth_sample five_samples_fields)
  from four t cond obtain r where
    r: "solveCameraRobotPose test_collaborators True five_samples = Inr r"
    and p: "camera_robot_pose w' = camera_robot_pose (snd r)"
    by (auto simp: take_fifth_sample)
  from four solve_five_samples five_samples_fields(3,4) obtain res v' where
    s: "solveCameraRobotPose test_collaborators True five_samples = Inr (res, v')"
    and q: "camera_robot_pose v' = solver_getCameraRobotPose test_collaborators half_turn_matrix"
    by auto
  from r s p q have "camera_robot_pose w' = half_turn_matrix"
    by (simp add: test_collaborators_def)
  with t have first: "\<exists>w'. takeSampleBtnClicked test_collaborators (Some half_turn_x)
            (Some half_turn_x) True NoLockedScene four_samples = Inr w'
         \<and> camera_robot_pose four_samples = Identity
         \<and> camera_robot_pose w' = half_turn_matrix"
    by (auto simp: four_samples_fields)
  have d: "\<exists>w'. deleteLatestSampleBtnClicked six_samples = Inr w'"
    by (simp add: deleteLatestSampleBtnClicked_def six_samples_def Let_def)
  have d2: "emit_samples [Identity] [Identity] = [sample_record Identity Identity]"
    by (simp add: emit_samples_def emit_matrix_row_major sample_record_def)
  have l: "\<exists>w'. loadSamplesBtnClicked test_collaborators ''samples.yaml'' one_sample_file
              six_samples = Inr w'"
    by (simp add: loadSamplesBtnClicked_def one_sample_file_def d2 load_records_step
        load_records_Nil Let_def del: load_records.simps)
  from first six d l show ?thesis by blast
qed

end
